theory Spec2Isabelle
  imports Complex_Main
begin

section \<open>CyberRadioDriver: the component layer (components.py)\<close>

text \<open>
  A shallow embedding of the hardware component classes of
  \<^verbatim>\<open>CyberRadioDriver/components.py\<close>: the numeric adjustment helpers, the tuner, the
  DDC, the CW tone generator, the transmitter and the DUC. Python floats are modelled
  as real numbers (exact arithmetic), dictionaries as maps, the attributes of an object
  as a record, and a raised exception as the left branch of a sum.
\<close>

subsection \<open>Configuration keys, values and exceptions\<close>

text \<open>
  Modelled from the spec: the constants of the module \<^verbatim>\<open>configKeys\<close>, which is not part
  of the sources at hand. The spec describes a configuration key as an enumerated
  symbol, so every constant that components.py names is one constructor, and two
  constants with different names are different keys.
\<close>

datatype key =
    INDEX | ENABLE
  | TUNER_FREQUENCY | TUNER_ATTENUATION | TUNER_RF_ATTENUATION
  | TUNER_AGP | TUNER_FILTER | TUNER_TIMING_ADJ
  | DDC_FREQUENCY_OFFSET | DDC_RATE_INDEX | DDC_UDP_DESTINATION
  | DDC_VITA_ENABLE | DDC_STREAM_ID | DDC_DATA_PORT
  | CW_INDEX | CW_FREQUENCY | CW_AMPLITUDE | CW_PHASE
  | CW_SWEEP_START | CW_SWEEP_STOP | CW_SWEEP_STEP | CW_SWEEP_DWELL
  | TX_INDEX | TX_FREQUENCY | TX_ATTENUATION | CONFIG_CW
  | DUC_INDEX | DUC_DATA_PORT | DUC_FREQUENCY | DUC_ATTENUATION
  | DUC_RATE_INDEX | DUC_TX_CHANNELS | DUC_MODE | DUC_STREAM_ID
  | DUC_FILENAME | DUC_START_SAMPLE | DUC_SAMPLES | DUC_SINGLE_PLAYBACK

text \<open>
  The exceptions a call can raise. \<open>NonFinite\<close> is not a Python exception: it stands
  for the \<^verbatim>\<open>inf\<close> or \<^verbatim>\<open>nan\<close> that numpy returns for a division by zero, which the real
  numbers do not have.
\<close>

datatype pyerr =
    KeyError key | IndexKeyError int | TypeError | ValueError | ZeroDivisionError | NonFinite

subsection \<open>Numeric adjustment\<close>

text \<open>
  \<^verbatim>\<open>numpy.rint\<close>: the nearest integer, a value halfway between two integers going to
  the even one.
\<close>

definition rint :: "real \<Rightarrow> int" where
  "rint x =
     (let f = \<lfloor>x\<rfloor>; d = x - of_int f
      in if d < 1 / 2 then f
         else if 1 / 2 < d then f + 1
         else if even f then f else f + 1)"

text \<open>
  \<^verbatim>\<open>numpy.around(x, decimals)\<close>: scale by the power of ten, \<^verbatim>\<open>rint\<close>, scale back;
  numpy multiplies first for non-negative \<^verbatim>\<open>decimals\<close> and divides first for negative
  ones.
\<close>

definition numpy_around :: "real \<Rightarrow> int \<Rightarrow> real" where
  "numpy_around x decimals =
     (if 0 \<le> decimals
      then of_int (rint (x * 10 ^ nat decimals)) / 10 ^ nat decimals
      else of_int (rint (x / 10 ^ nat (- decimals))) * 10 ^ nat (- decimals))"

text \<open>Python's \<^verbatim>\<open>int(x)\<close> on a float truncates towards zero.\<close>

definition py_int :: "real \<Rightarrow> int" where
  "py_int x = (if 0 \<le> x then \<lfloor>x\<rfloor> else \<lceil>x\<rceil>)"

text \<open>
  The expression \<^verbatim>\<open>int(numpy.log10(1.0/res))\<close> of both helpers. \<^verbatim>\<open>1.0/res\<close> raises
  ZeroDivisionError for a zero resolution; for a negative one \<^verbatim>\<open>numpy.log10\<close> gives
  \<^verbatim>\<open>nan\<close>, on which \<^verbatim>\<open>int\<close> raises ValueError.
\<close>

definition res_decimals :: "real \<Rightarrow> pyerr + int" where
  "res_decimals res =
     (if res = 0 then Inl ZeroDivisionError
      else if res < 0 then Inl ValueError
      else Inr (py_int (log 10 (1 / res))))"

definition adjustFrequency :: "real \<Rightarrow> real \<times> real \<Rightarrow> real \<Rightarrow> real \<Rightarrow> pyerr + real" where
  "adjustFrequency frqIn frange res units =
     (let frqOut = (if frqIn < fst frange then fst frange else frqIn);
          frqOut = (if frqIn > snd frange then snd frange else frqOut)
      in case res_decimals res of
           Inl e \<Rightarrow> Inl e
         | Inr d \<Rightarrow>
             if units = 0 then Inl NonFinite
             else Inr (numpy_around frqOut d / units))"

definition adjustAttenuation :: "real \<Rightarrow> real \<times> real \<Rightarrow> real \<Rightarrow> real \<Rightarrow> pyerr + real" where
  "adjustAttenuation attIn attRange attRes attUnits =
     (let attOut = max attIn (fst attRange);
          attOut = min attOut (snd attRange)
      in case res_decimals attRes of
           Inl e \<Rightarrow> Inl e
         | Inr d \<Rightarrow>
             if attUnits = 0 then Inl NonFinite
             else Inr (numpy_around attOut d / attUnits))"

text \<open>
  The step of the grid that \<^verbatim>\<open>numpy.around\<close> rounds to for a resolution: ten to the
  power of minus the number of decimals.
\<close>

definition grid_step :: "real \<Rightarrow> real" where
  "grid_step res = 10 powi (- py_int (log 10 (1 / res)))"



subsection \<open>Python values, commands and the transport\<close>

text \<open>
  The values a configuration dictionary holds: scalars, strings, and nested
  dictionaries, keyed by configuration key or (for the children of a composite
  component) by child index.
\<close>

datatype pyval =
    VNone | VBool bool | VInt int | VFloat real | VStr string
  | VDict "key \<Rightarrow> pyval option"
  | VIdxDict "(int \<times> pyval) list"

type_synonym pydict = "key \<Rightarrow> pyval option"

text \<open>\<^verbatim>\<open>d.get(k, default)\<close>\<close>

definition dict_get :: "pydict \<Rightarrow> key \<Rightarrow> pyval \<Rightarrow> pyval" where
  "dict_get d k dflt = (case d k of None \<Rightarrow> dflt | Some v \<Rightarrow> v)"

text \<open>\<^verbatim>\<open>d[k]\<close>, which raises KeyError for a missing key.\<close>

definition dict_item :: "pydict \<Rightarrow> key \<Rightarrow> pyerr + pyval" where
  "dict_item d k = (case d k of None \<Rightarrow> Inl (KeyError k) | Some v \<Rightarrow> Inr v)"

text \<open>Sequencing of computations that may raise: the first exception ends the call.\<close>

definition thenE :: "'e + 'a \<Rightarrow> ('a \<Rightarrow> 'e + 'b) \<Rightarrow> 'e + 'b" where
  "thenE m f = (case m of Inl e \<Rightarrow> Inl e | Inr a \<Rightarrow> f a)"

text \<open>
  A command object as the component builds it: the command class (the module
  \<^verbatim>\<open>command\<close> is not part of the sources at hand, so a class is known by its name only),
  whether it is a query, and its keyword arguments. The arguments \<^verbatim>\<open>parent\<close>,
  \<^verbatim>\<open>verbose\<close> and \<^verbatim>\<open>logFile\<close> serve logging and are left out.
\<close>

type_synonym cmdclass = string

record invocation =
  cmd_class :: cmdclass
  cmd_query :: bool
  cmd_args :: pydict

definition set_inv :: "cmdclass \<Rightarrow> pydict \<Rightarrow> invocation" where
  "set_inv c args = \<lparr>cmd_class = c, cmd_query = False, cmd_args = args\<rparr>"

definition query_inv :: "cmdclass \<Rightarrow> pydict \<Rightarrow> invocation" where
  "query_inv c args = \<lparr>cmd_class = c, cmd_query = True, cmd_args = args\<rparr>"

text \<open>
  What a command object shows after \<^verbatim>\<open>send\<close>: the value \<^verbatim>\<open>send\<close> returned, the
  attribute \<^verbatim>\<open>success\<close>, the result of \<^verbatim>\<open>getResponseInfo()\<close> (\<open>None\<close> for Python's
  \<^verbatim>\<open>None\<close>) and the attributes read with \<^verbatim>\<open>getattr(cmd, key)\<close>.
\<close>

record outcome =
  out_sent :: bool
  out_success :: bool
  out_rspInfo :: "pydict option"
  out_attr :: "key \<Rightarrow> pyval"

definition ok :: "outcome \<Rightarrow> bool" where
  "ok out = (out_sent out \<and> out_success out)"

text \<open>
  A callback is a handle; the call log lists every \<^verbatim>\<open>cmd.send(callback)\<close> so far, with
  the callback it was given.
\<close>

type_synonym callback = nat
type_synonym transport = nat
type_synonym calllog = "(callback option \<times> invocation) list"

text \<open>
  The collaborators outside components.py, taken as parameters: \<open>cmd_send\<close> is the
  behaviour of the command classes and of the hardware behind the callback (the
  outcome of a command sent with a callback after a history of sends), \<open>str_float\<close>
  is Python's \<^verbatim>\<open>float\<close> on a string (\<open>None\<close> where it raises ValueError), and
  \<open>base_query\<close> is the base-class hook \<^verbatim>\<open>configKeys.Configurable._queryConfiguration\<close>,
  acting on the two attributes that the class \<^verbatim>\<open>Configurable\<close> owns.
\<close>

type_synonym diag = "invocation \<times> outcome option"

record env =
  cmd_send :: "callback option \<Rightarrow> calllog \<Rightarrow> invocation \<Rightarrow> outcome"
  str_float :: "string \<Rightarrow> real option"
  base_query :: "pydict \<times> diag list \<Rightarrow> pydict \<times> diag list"

text \<open>\<^verbatim>\<open>float(v)\<close>\<close>

definition py_float :: "env \<Rightarrow> pyval \<Rightarrow> pyerr + real" where
  "py_float E v =
     (case v of
        VNone \<Rightarrow> Inl TypeError
      | VBool b \<Rightarrow> Inr (if b then 1 else 0)
      | VInt i \<Rightarrow> Inr (of_int i)
      | VFloat r \<Rightarrow> Inr r
      | VStr s \<Rightarrow> (case str_float E s of None \<Rightarrow> Inl ValueError | Some r \<Rightarrow> Inr r)
      | VDict d \<Rightarrow> Inl TypeError
      | VIdxDict d \<Rightarrow> Inl TypeError)"

text \<open>\<^verbatim>\<open>v * units\<close> for a float \<^verbatim>\<open>units\<close>\<close>

definition py_mul_float :: "pyval \<Rightarrow> real \<Rightarrow> pyerr + pyval" where
  "py_mul_float v units =
     (case v of
        VNone \<Rightarrow> Inl TypeError
      | VBool b \<Rightarrow> Inr (VFloat ((if b then 1 else 0) * units))
      | VInt i \<Rightarrow> Inr (VFloat (of_int i * units))
      | VFloat r \<Rightarrow> Inr (VFloat (r * units))
      | VStr s \<Rightarrow> Inl TypeError
      | VDict d \<Rightarrow> Inl TypeError
      | VIdxDict d \<Rightarrow> Inl TypeError)"

subsection \<open>The base component\<close>

text \<open>
  The attributes of \<^verbatim>\<open>_base\<close> and of its base class \<^verbatim>\<open>Configurable\<close>. A subclass with
  more attributes extends the record.
\<close>

record component =
  transport :: "transport option"
  callback :: "callback option"
  index :: int
  configuration :: pydict
  cmdErrorInfo :: "diag list"

text \<open>
  The class attributes that the component classes read; a subclass overrides them.
  All numeric attributes are taken to be floats.
\<close>

record pyclass =
  frqRange :: "real \<times> real"
  frqRes :: real
  frqUnits :: real
  attRange :: "real \<times> real"
  attRes :: real
  frqCmd :: "cmdclass option"
  attCmd :: "cmdclass option"
  agpCmd :: "cmdclass option"
  tpwrCmd :: "cmdclass option"
  fifCmd :: "cmdclass option"
  tadjCmd :: "cmdclass option"
  cfgCmd :: "cmdclass option"
  dportCmd :: "cmdclass option"
  toneCmd :: "cmdclass option"
  sweepCmd :: "cmdclass option"
  snapshotLoadCmd :: "cmdclass option"
  snapshotTxCmd :: "cmdclass option"
  validConfigurationKeywords :: "key list"

text \<open>
  Modelled from the spec: \<^verbatim>\<open>Configurable._addLastCommandErrorInfo\<close>, which is not part of
  the sources at hand. The spec has every invocation's outcome, success or failure,
  appended to the component's diagnostic list. The entry holds the outcome the command
  object has at that moment: \<open>None\<close> for a command that has not been sent yet.
\<close>

definition addLastCommandErrorInfo ::
  "invocation \<Rightarrow> outcome option \<Rightarrow> 'a component_scheme \<Rightarrow> 'a component_scheme" where
  "addLastCommandErrorInfo cmd out s = s\<lparr>cmdErrorInfo := cmdErrorInfo s @ [(cmd, out)]\<rparr>"

text \<open>
  Modelled from the spec: \<^verbatim>\<open>Configurable.getLastCommandErrorInfo\<close>, not part of the
  sources at hand: the component's diagnostic list.
\<close>

definition getLastCommandErrorInfo :: "'a component_scheme \<Rightarrow> diag list" where
  "getLastCommandErrorInfo s = cmdErrorInfo s"

text \<open>
  Modelled from the spec: \<^verbatim>\<open>Configurable._dictUpdate(dicta, dictb, dictc, keys)\<close>, not
  part of the sources at hand. The spec merges, for each covered key, the requested
  value, and for a key the request leaves out the current mirrored value.
\<close>

definition dictUpdate :: "pydict \<Rightarrow> pydict \<Rightarrow> pydict \<Rightarrow> key list \<Rightarrow> pydict" where
  "dictUpdate dicta dictb dictc keys =
     (\<lambda>k. if k \<in> set keys
          then (case dictb k of Some v \<Rightarrow> Some v
                | None \<Rightarrow> (case dictc k of Some v \<Rightarrow> Some v | None \<Rightarrow> dicta k))
          else dicta k)"

text \<open>\<^verbatim>\<open>cmd.send(self.callback)\<close>: one round trip, entered in the call log.\<close>

definition send :: "env \<Rightarrow> invocation \<Rightarrow> 'a component_scheme \<times> calllog \<Rightarrow> outcome \<times> calllog" where
  "send E cmd = (\<lambda>(s, lg). (cmd_send E (callback s) lg cmd, lg @ [(callback s, cmd)]))"

text \<open>
  The four lines that every set wiring repeats:
  \<^verbatim>\<open>ret &= cmd.send(self.callback); ret &= cmd.success; self._addLastCommandErrorInfo(cmd)\<close>
  after the command object is built.
\<close>

definition issue ::
  "env \<Rightarrow> invocation \<Rightarrow> 'a component_scheme \<times> calllog \<times> bool
     \<Rightarrow> outcome \<times> 'a component_scheme \<times> calllog \<times> bool" where
  "issue E cmd = (\<lambda>(s, lg, ret).
     let (out, lg1) = send E cmd (s, lg);
         ret1 = (ret \<and> out_sent out);
         ret2 = (ret1 \<and> out_success out)
     in (out, addLastCommandErrorInfo cmd (Some out) s, lg1, ret2))"

text \<open>
  The lines that every query wiring repeats:
  \<^verbatim>\<open>cmd.send(self.callback); self._addLastCommandErrorInfo(cmd); rspInfo = cmd.getResponseInfo()\<close>
\<close>

definition ask ::
  "env \<Rightarrow> invocation \<Rightarrow> 'a component_scheme \<times> calllog
     \<Rightarrow> pydict option \<times> 'a component_scheme \<times> calllog" where
  "ask E cmd = (\<lambda>(s, lg).
     let (out, lg1) = send E cmd (s, lg)
     in (out_rspInfo out, addLastCommandErrorInfo cmd (Some out) s, lg1))"

text \<open>\<^verbatim>\<open>self.configuration[k] = v\<close>\<close>

definition conf_set :: "key \<Rightarrow> pyval \<Rightarrow> 'a component_scheme \<Rightarrow> 'a component_scheme" where
  "conf_set k v s = s\<lparr>configuration := (configuration s)(k \<mapsto> v)\<rparr>"

text \<open>\<^verbatim>\<open>_base.delTransport\<close>\<close>

definition delTransport :: "'a component_scheme \<Rightarrow> 'a component_scheme" where
  "delTransport s = s\<lparr>transport := None, callback := None\<rparr>"

subsection \<open>The wirings that the component classes repeat\<close>

type_synonym 'a setst = "'a component_scheme \<times> calllog \<times> bool"
type_synonym 'a qryst = "'a component_scheme \<times> calllog"

text \<open>
  A set wiring for one key whose value goes to the command as it is (the ENABLE, AGP,
  filter and timing-adjustment blocks of \<^verbatim>\<open>_setConfiguration\<close>):
  \<^verbatim>\<open>if KEY in confDict: if self.xCmd is not None: cmd = self.xCmd(index, KEY: confDict.get(KEY, 0)); ...; if ret: self.configuration[KEY] = getattr(cmd, KEY)\<close>.
  The mirrored entry is written when the accumulated \<^verbatim>\<open>ret\<close> is true.
\<close>

definition set_plain ::
  "env \<Rightarrow> cmdclass option \<Rightarrow> key \<Rightarrow> key \<Rightarrow> pydict \<Rightarrow> 'a setst \<Rightarrow> pyerr + 'a setst" where
  "set_plain E cmdCls idxKey k confDict = (\<lambda>(s, lg, ret).
     if confDict k \<noteq> None then
       (case cmdCls of
          None \<Rightarrow> Inr (s, lg, ret)
        | Some c \<Rightarrow>
            (let (out, s1, lg1, ret1) =
                   issue E (set_inv c [idxKey \<mapsto> VInt (index s),
                                       k \<mapsto> dict_get confDict k (VInt 0)]) (s, lg, ret)
             in Inr (if ret1 then conf_set k (out_attr out k) s1 else s1, lg1, ret1)))
     else Inr (s, lg, ret))"

text \<open>
  The frequency block of the tuner, the DDC and the transmitter: the requested value is
  converted with \<^verbatim>\<open>float\<close>, adjusted, sent, and mirrored as
  \<^verbatim>\<open>freqAdj * self.frqUnits\<close> when \<^verbatim>\<open>ret\<close> is true.
\<close>

definition set_frq ::
  "env \<Rightarrow> 'c pyclass_scheme \<Rightarrow> key \<Rightarrow> key \<Rightarrow> pydict \<Rightarrow> 'a setst \<Rightarrow> pyerr + 'a setst" where
  "set_frq E cls idxKey k confDict = (\<lambda>(s, lg, ret).
     if confDict k \<noteq> None then
       (case frqCmd cls of
          None \<Rightarrow> Inr (s, lg, ret)
        | Some c \<Rightarrow>
            thenE (py_float E (dict_get confDict k (VInt 0))) (\<lambda>freqIn.
            thenE (adjustFrequency freqIn (frqRange cls) (frqRes cls) (frqUnits cls)) (\<lambda>freqAdj.
              (let (out, s1, lg1, ret1) =
                     issue E (set_inv c [idxKey \<mapsto> VInt (index s),
                                         k \<mapsto> VFloat freqAdj]) (s, lg, ret)
               in Inr (if ret1 then conf_set k (VFloat (freqAdj * frqUnits cls)) s1 else s1,
                       lg1, ret1)))))
     else Inr (s, lg, ret))"

text \<open>
  A set wiring that covers several keys with one command (the DDC's configuration and
  data-port commands, the tone generator's two commands, the DUC's configuration
  command): the arguments are merged by \<^verbatim>\<open>_dictUpdate\<close>, the index arguments are added
  by \<^verbatim>\<open>cDict.update\<close>, and every covered key is mirrored from the command's attributes
  when \<^verbatim>\<open>ret\<close> is true.
\<close>

definition set_group ::
  "env \<Rightarrow> cmdclass option \<Rightarrow> ('a component_scheme \<Rightarrow> pydict) \<Rightarrow> key list \<Rightarrow> pydict
     \<Rightarrow> 'a setst \<Rightarrow> pyerr + 'a setst" where
  "set_group E cmdCls idx keys confDict = (\<lambda>(s, lg, ret).
     if list_ex (\<lambda>q. confDict q \<noteq> None) keys then
       (case cmdCls of
          None \<Rightarrow> Inr (s, lg, ret)
        | Some c \<Rightarrow>
            (let cDict = dictUpdate Map.empty confDict (configuration s) keys;
                 cDict = cDict ++ idx s;
                 (out, s1, lg1, ret1) = issue E (set_inv c cDict) (s, lg, ret)
             in Inr (if ret1 then fold (\<lambda>key. conf_set key (out_attr out key)) keys s1 else s1,
                     lg1, ret1)))
     else Inr (s, lg, ret))"

text \<open>
  A query wiring that copies fields of the response into the mirrored map:
  \<^verbatim>\<open>self.configuration[k] = rspInfo.get(src, default)\<close> for each listed
  \<open>(k, src, default)\<close>, when the response is not \<^verbatim>\<open>None\<close>.
\<close>

definition query_keys ::
  "env \<Rightarrow> cmdclass option \<Rightarrow> ('a component_scheme \<Rightarrow> pydict) \<Rightarrow> (key \<times> key \<times> pyval) list
     \<Rightarrow> 'a qryst \<Rightarrow> 'a qryst" where
  "query_keys E cmdCls idx flds = (\<lambda>(s, lg).
     case cmdCls of
       None \<Rightarrow> (s, lg)
     | Some c \<Rightarrow>
         (let (rspInfo, s1, lg1) = ask E (query_inv c (idx s)) (s, lg)
          in case rspInfo of
               None \<Rightarrow> (s1, lg1)
             | Some r \<Rightarrow>
                 (fold (\<lambda>(k, src, dflt). conf_set k (dict_get r src dflt)) flds s1, lg1)))"

text \<open>
  The frequency query of the tuner, the DDC and the transmitter:
  \<^verbatim>\<open>freq = rspInfo.get(k, None); self.configuration[k] = None if freq is None else freq * self.frqUnits\<close>
\<close>

definition query_frq ::
  "env \<Rightarrow> 'c pyclass_scheme \<Rightarrow> ('a component_scheme \<Rightarrow> pydict) \<Rightarrow> key \<Rightarrow> 'a qryst \<Rightarrow> pyerr + 'a qryst" where
  "query_frq E cls idx k = (\<lambda>(s, lg).
     case frqCmd cls of
       None \<Rightarrow> Inr (s, lg)
     | Some c \<Rightarrow>
         (let (rspInfo, s1, lg1) = ask E (query_inv c (idx s)) (s, lg)
          in case rspInfo of
               None \<Rightarrow> Inr (s1, lg1)
             | Some r \<Rightarrow>
                 (case dict_get r k VNone of
                    VNone \<Rightarrow> Inr (conf_set k VNone s1, lg1)
                  | freq \<Rightarrow>
                      thenE (py_mul_float freq (frqUnits cls)) (\<lambda>v.
                        Inr (conf_set k v s1, lg1)))))"

text \<open>The call of the base-class hook that opens every \<^verbatim>\<open>_queryConfiguration\<close>.\<close>

definition Configurable_queryConfiguration :: "env \<Rightarrow> 'a qryst \<Rightarrow> 'a qryst" where
  "Configurable_queryConfiguration E = (\<lambda>(s, lg).
     let (conf, errs) = base_query E (configuration s, cmdErrorInfo s)
     in (s\<lparr>configuration := conf, cmdErrorInfo := errs\<rparr>, lg))"

text \<open>
  Modelled from the spec: the public \<^verbatim>\<open>Configurable.setConfiguration\<close>, not part of the
  sources at hand. The spec has it ignore the keys outside the recognized-key set and
  apply the rest, which the class does in \<^verbatim>\<open>_setConfiguration\<close>, starting from
  \<^verbatim>\<open>ret = True\<close>.
\<close>

definition setConfiguration ::
  "(pydict \<Rightarrow> 'a setst \<Rightarrow> pyerr + 'a setst) \<Rightarrow> key list \<Rightarrow> pydict \<Rightarrow> 'a qryst
     \<Rightarrow> pyerr + 'a setst" where
  "setConfiguration protected valid kwargs = (\<lambda>(s, lg).
     protected (\<lambda>k. if k \<in> set valid then kwargs k else None) (s, lg, True))"

text \<open>
  Modelled from the spec: the public \<^verbatim>\<open>Configurable.queryConfiguration\<close>, not part of
  the sources at hand. The spec has it run the queries of the component and return the
  updated mirrored map.
\<close>

definition queryConfiguration ::
  "('a qryst \<Rightarrow> pyerr + 'a qryst) \<Rightarrow> 'a qryst \<Rightarrow> pyerr + pydict \<times> 'a qryst" where
  "queryConfiguration protected st =
     thenE (protected st) (\<lambda>(s, lg). Inr (configuration s, s, lg))"

text \<open>\<^verbatim>\<open>_base.addTransport\<close>; the query is the one of the object's own class.\<close>

definition addTransport ::
  "('a qryst \<Rightarrow> pyerr + 'a qryst) \<Rightarrow> transport option \<Rightarrow> callback option \<Rightarrow> bool
     \<Rightarrow> 'a qryst \<Rightarrow> pyerr + 'a qryst" where
  "addTransport protected t cb queryConfig = (\<lambda>(s, lg).
     let s1 = s\<lparr>transport := t\<rparr>;
         s2 = s1\<lparr>callback := cb\<rparr>
     in if queryConfig
        then thenE (queryConfiguration protected (s2, lg)) (\<lambda>(conf, s3, lg3). Inr (s3, lg3))
        else Inr (s2, lg))"

subsection \<open>The tuner\<close>

text \<open>The class attributes of \<^verbatim>\<open>_tuner\<close>.\<close>

definition tuner_class :: pyclass where
  "tuner_class =
     \<lparr>frqRange = (20000000, 3000000000), frqRes = 1000000, frqUnits = 1000000,
      attRange = (0, 30), attRes = 1,
      frqCmd = Some ''frq'', attCmd = Some ''att'', agpCmd = None, tpwrCmd = Some ''tpwr'',
      fifCmd = None, tadjCmd = None, cfgCmd = None, dportCmd = None,
      toneCmd = None, sweepCmd = None, snapshotLoadCmd = None, snapshotTxCmd = None,
      validConfigurationKeywords =
        [TUNER_FREQUENCY, TUNER_ATTENUATION, TUNER_RF_ATTENUATION, ENABLE]\<rparr>"

definition idx_INDEX :: "'a component_scheme \<Rightarrow> pydict" where
  "idx_INDEX s = [INDEX \<mapsto> VInt (index s)]"

text \<open>\<^verbatim>\<open>_tuner._queryConfiguration\<close>\<close>

definition tuner_queryConfiguration :: "env \<Rightarrow> pyclass \<Rightarrow> 'a qryst \<Rightarrow> pyerr + 'a qryst" where
  "tuner_queryConfiguration E cls st =
     (let st = Configurable_queryConfiguration E st;
          st = query_keys E (tpwrCmd cls) idx_INDEX [(ENABLE, ENABLE, VInt 0)] st
      in thenE (query_frq E cls idx_INDEX TUNER_FREQUENCY st) (\<lambda>st.
           (let st = query_keys E (attCmd cls) idx_INDEX
                       [(TUNER_ATTENUATION, TUNER_ATTENUATION, VNone),
                        (TUNER_RF_ATTENUATION, TUNER_ATTENUATION, VNone)] st;
                st = query_keys E (agpCmd cls) idx_INDEX [(TUNER_AGP, TUNER_AGP, VNone)] st;
                st = query_keys E (fifCmd cls) idx_INDEX [(TUNER_FILTER, TUNER_FILTER, VNone)] st;
                st = query_keys E (tadjCmd cls) idx_INDEX
                       [(TUNER_TIMING_ADJ, TUNER_TIMING_ADJ, VNone)] st
            in Inr st)))"

text \<open>The attenuation block of \<^verbatim>\<open>_tuner._setConfiguration\<close>.\<close>

definition tuner_set_att :: "env \<Rightarrow> pyclass \<Rightarrow> pydict \<Rightarrow> 'a setst \<Rightarrow> pyerr + 'a setst" where
  "tuner_set_att E cls confDict = (\<lambda>(s, lg, ret).
     if confDict TUNER_ATTENUATION \<noteq> None \<or> confDict TUNER_RF_ATTENUATION \<noteq> None then
       (case attCmd cls of
          None \<Rightarrow> Inr (s, lg, ret)
        | Some c \<Rightarrow>
            thenE (py_float E (dict_get confDict TUNER_RF_ATTENUATION
                                 (dict_get confDict TUNER_ATTENUATION (VInt 0)))) (\<lambda>rfAttIn.
            thenE (adjustAttenuation rfAttIn (attRange cls) (attRes cls) 1) (\<lambda>rfAttAdj.
              (let (out, s1, lg1, ret1) =
                     issue E (set_inv c [INDEX \<mapsto> VInt (index s),
                                         TUNER_ATTENUATION \<mapsto> VFloat rfAttAdj]) (s, lg, ret)
               in Inr (if ret1
                       then conf_set TUNER_RF_ATTENUATION (VFloat rfAttAdj)
                              (conf_set TUNER_ATTENUATION (VFloat rfAttAdj) s1)
                       else s1, lg1, ret1)))))
     else Inr (s, lg, ret))"

text \<open>\<^verbatim>\<open>_tuner._setConfiguration\<close>\<close>

definition tuner_setConfiguration :: "env \<Rightarrow> pyclass \<Rightarrow> pydict \<Rightarrow> 'a setst \<Rightarrow> pyerr + 'a setst" where
  "tuner_setConfiguration E cls confDict st =
     thenE (set_plain E (tpwrCmd cls) INDEX ENABLE confDict st) (\<lambda>st.
     thenE (set_frq E cls INDEX TUNER_FREQUENCY confDict st) (\<lambda>st.
     thenE (tuner_set_att E cls confDict st) (\<lambda>st.
     thenE (set_plain E (agpCmd cls) INDEX TUNER_AGP confDict st) (\<lambda>st.
     thenE (set_plain E (fifCmd cls) INDEX TUNER_FILTER confDict st) (\<lambda>st.
     set_plain E (tadjCmd cls) INDEX TUNER_TIMING_ADJ confDict st)))))"

subsection \<open>The DDC\<close>

definition ddc_cfg_keys :: "key list" where
  "ddc_cfg_keys = [ENABLE, DDC_RATE_INDEX, DDC_UDP_DESTINATION, DDC_VITA_ENABLE, DDC_STREAM_ID]"

text \<open>\<^verbatim>\<open>_ddc._queryConfiguration\<close>\<close>

definition ddc_queryConfiguration :: "env \<Rightarrow> pyclass \<Rightarrow> 'a qryst \<Rightarrow> pyerr + 'a qryst" where
  "ddc_queryConfiguration E cls st =
     (let st = Configurable_queryConfiguration E st
      in thenE (query_frq E cls idx_INDEX DDC_FREQUENCY_OFFSET st) (\<lambda>st.
           (let st = query_keys E (cfgCmd cls) idx_INDEX
                       [(DDC_RATE_INDEX, DDC_RATE_INDEX, VNone),
                        (DDC_UDP_DESTINATION, DDC_UDP_DESTINATION, VNone),
                        (ENABLE, ENABLE, VNone),
                        (DDC_VITA_ENABLE, DDC_VITA_ENABLE, VNone),
                        (DDC_STREAM_ID, DDC_STREAM_ID, VNone)] st;
                st = query_keys E (dportCmd cls) idx_INDEX
                       [(DDC_DATA_PORT, DDC_DATA_PORT, VNone)] st
            in Inr st)))"

text \<open>\<^verbatim>\<open>_ddc._setConfiguration\<close>\<close>

definition ddc_setConfiguration :: "env \<Rightarrow> pyclass \<Rightarrow> pydict \<Rightarrow> 'a setst \<Rightarrow> pyerr + 'a setst" where
  "ddc_setConfiguration E cls confDict st =
     thenE (set_group E (dportCmd cls) idx_INDEX [DDC_DATA_PORT] confDict st) (\<lambda>st.
     thenE (set_frq E cls INDEX DDC_FREQUENCY_OFFSET confDict st) (\<lambda>st.
     set_group E (cfgCmd cls) idx_INDEX ddc_cfg_keys confDict st))"

subsection \<open>The CW tone generator\<close>

text \<open>
  The class attributes of \<^verbatim>\<open>_cwToneGen\<close>. The class has no frequency units and no
  attenuation attributes; its methods do not read them.
\<close>

definition cwToneGen_class :: pyclass where
  "cwToneGen_class =
     \<lparr>frqRange = (- 51200000, 51200000), frqRes = 1, frqUnits = 1,
      attRange = (0, 0), attRes = 1,
      frqCmd = None, attCmd = None, agpCmd = None, tpwrCmd = None,
      fifCmd = None, tadjCmd = None, cfgCmd = None, dportCmd = None,
      toneCmd = Some ''cwt'', sweepCmd = Some ''cws'',
      snapshotLoadCmd = None, snapshotTxCmd = None,
      validConfigurationKeywords =
        [CW_FREQUENCY, CW_AMPLITUDE, CW_PHASE,
         CW_SWEEP_START, CW_SWEEP_STOP, CW_SWEEP_STEP, CW_SWEEP_DWELL]\<rparr>"

text \<open>
  The index arguments of a tone generator's commands; \<open>pidx\<close> is
  \<^verbatim>\<open>self.parent.index\<close>, the index of the transmitter that owns the generator.
\<close>

definition idx_CW :: "int \<Rightarrow> 'a component_scheme \<Rightarrow> pydict" where
  "idx_CW pidx s = [CW_INDEX \<mapsto> VInt (index s), TX_INDEX \<mapsto> VInt pidx]"

text \<open>\<^verbatim>\<open>_cwToneGen._queryConfiguration\<close>\<close>

definition cwToneGen_queryConfiguration ::
  "env \<Rightarrow> pyclass \<Rightarrow> int \<Rightarrow> 'a qryst \<Rightarrow> pyerr + 'a qryst" where
  "cwToneGen_queryConfiguration E cls pidx st =
     (let st = Configurable_queryConfiguration E st;
          st = query_keys E (toneCmd cls) (idx_CW pidx)
                 [(CW_FREQUENCY, CW_FREQUENCY, VNone),
                  (CW_AMPLITUDE, CW_AMPLITUDE, VNone),
                  (CW_PHASE, CW_PHASE, VNone)] st;
          st = query_keys E (sweepCmd cls) (idx_CW pidx)
                 [(CW_SWEEP_START, CW_SWEEP_START, VNone),
                  (CW_SWEEP_STOP, CW_SWEEP_STOP, VNone),
                  (CW_SWEEP_STEP, CW_SWEEP_STEP, VNone),
                  (CW_SWEEP_DWELL, CW_SWEEP_DWELL, VNone)] st
      in Inr st)"

text \<open>\<^verbatim>\<open>_cwToneGen._setConfiguration\<close>\<close>

definition cwToneGen_setConfiguration ::
  "env \<Rightarrow> pyclass \<Rightarrow> int \<Rightarrow> pydict \<Rightarrow> 'a setst \<Rightarrow> pyerr + 'a setst" where
  "cwToneGen_setConfiguration E cls pidx confDict st =
     thenE (set_group E (toneCmd cls) (idx_CW pidx)
              [CW_FREQUENCY, CW_AMPLITUDE, CW_PHASE] confDict st) (\<lambda>st.
     set_group E (sweepCmd cls) (idx_CW pidx)
       [CW_SWEEP_START, CW_SWEEP_STOP, CW_SWEEP_STEP, CW_SWEEP_DWELL] confDict st)"

subsection \<open>The transmitter\<close>

text \<open>
  A transmitter owns its tone generators: \<^verbatim>\<open>toneGenDict\<close> maps an index to a generator
  object, here the generator's class and its attributes, in insertion order.
\<close>

record tx = component +
  toneGenDict :: "(int \<times> pyclass \<times> component) list"

record txclass = pyclass +
  numToneGen :: int
  toneGenType :: "pyclass option"
  toneGenIndexBase :: int

text \<open>The class attributes of \<^verbatim>\<open>_tx\<close>.\<close>

definition tx_class :: txclass where
  "tx_class =
     \<lparr>frqRange = (20000000, 6000000000), frqRes = 1000000, frqUnits = 1000000,
      attRange = (0, 10), attRes = 1,
      frqCmd = Some ''txf'', attCmd = Some ''txa'', agpCmd = None, tpwrCmd = Some ''txp'',
      fifCmd = None, tadjCmd = None, cfgCmd = None, dportCmd = None,
      toneCmd = None, sweepCmd = None, snapshotLoadCmd = None, snapshotTxCmd = None,
      validConfigurationKeywords = [TX_FREQUENCY, TX_ATTENUATION, ENABLE, CONFIG_CW],
      numToneGen = 0, toneGenType = None, toneGenIndexBase = 1\<rparr>"

text \<open>
  Modelled from the spec: what \<^verbatim>\<open>Configurable.__init__\<close>, not part of the sources at
  hand, sets up: an empty mirrored map and an empty diagnostic list. The transport is
  the class attribute \<^verbatim>\<open>None\<close>; callback and index are set by \<^verbatim>\<open>_base.__init__\<close>.
\<close>

definition component_init :: "callback option \<Rightarrow> int \<Rightarrow> component" where
  "component_init cb i =
     \<lparr>transport = None, callback = cb, index = i, configuration = Map.empty,
      cmdErrorInfo = []\<rparr>"

text \<open>\<^verbatim>\<open>_tx.__init__\<close>; calling a tone generator type that is \<^verbatim>\<open>None\<close> raises TypeError.\<close>

definition tx_init :: "txclass \<Rightarrow> callback option \<Rightarrow> int \<Rightarrow> pyerr + tx" where
  "tx_init cls cb i =
     (let rng = [toneGenIndexBase cls .. toneGenIndexBase cls + numToneGen cls - 1]
      in case toneGenType cls of
           None \<Rightarrow>
             if rng = [] then Inr (component.extend (component_init cb i) \<lparr>toneGenDict = []\<rparr>)
             else Inl TypeError
         | Some tg \<Rightarrow>
             Inr (component.extend (component_init cb i)
                    \<lparr>toneGenDict = map (\<lambda>j. (j, tg, component_init cb j)) rng\<rparr>))"

text \<open>The loop of \<^verbatim>\<open>_tx.addTransport\<close> over the tone generators.\<close>

fun tx_addTransport_children ::
  "env \<Rightarrow> int \<Rightarrow> transport option \<Rightarrow> callback option \<Rightarrow> bool
     \<Rightarrow> (int \<times> pyclass \<times> component) list \<Rightarrow> calllog
     \<Rightarrow> pyerr + (int \<times> pyclass \<times> component) list \<times> calllog" where
  "tx_addTransport_children E pidx t cb queryConfig [] lg = Inr ([], lg)"
| "tx_addTransport_children E pidx t cb queryConfig ((i, c, child) # rest) lg =
     thenE (addTransport (cwToneGen_queryConfiguration E c pidx) t cb queryConfig (child, lg))
       (\<lambda>(child1, lg1).
     thenE (tx_addTransport_children E pidx t cb queryConfig rest lg1) (\<lambda>(rest1, lg2).
       Inr ((i, c, child1) # rest1, lg2)))"

text \<open>\<^verbatim>\<open>d[i] = v\<close> on a dictionary keyed by index.\<close>

fun idx_store :: "(int \<times> pyval) list \<Rightarrow> int \<Rightarrow> pyval \<Rightarrow> (int \<times> pyval) list" where
  "idx_store [] i v = [(i, v)]"
| "idx_store ((j, w) # rest) i v =
     (if j = i then (j, v) # rest else (j, w) # idx_store rest i v)"

text \<open>The loop of \<^verbatim>\<open>_tx._queryConfiguration\<close> over the tone generators.\<close>

fun tx_query_children ::
  "env \<Rightarrow> int \<Rightarrow> (int \<times> pyclass \<times> component) list
     \<Rightarrow> (int \<times> pyval) list \<times> diag list \<times> calllog
     \<Rightarrow> pyerr + (int \<times> pyclass \<times> component) list \<times> (int \<times> pyval) list \<times> diag list \<times> calllog" where
  "tx_query_children E pidx [] acc = Inr ([], acc)"
| "tx_query_children E pidx ((i, c, child) # rest) (cw, errs, lg) =
     thenE (queryConfiguration (cwToneGen_queryConfiguration E c pidx) (child, lg))
       (\<lambda>(conf, child1, lg1).
     thenE (tx_query_children E pidx rest
              (idx_store cw i (VDict conf), errs @ getLastCommandErrorInfo child1, lg1))
       (\<lambda>(rest1, acc1). Inr ((i, c, child1) # rest1, acc1)))"

text \<open>
  The attenuation query of \<^verbatim>\<open>_tx._queryConfiguration\<close>, which enters the command in the
  diagnostic list before it sends it.
\<close>

definition tx_query_att :: "env \<Rightarrow> 'c pyclass_scheme \<Rightarrow> 'a qryst \<Rightarrow> 'a qryst" where
  "tx_query_att E cls = (\<lambda>(s, lg).
     case attCmd cls of
       None \<Rightarrow> (s, lg)
     | Some c \<Rightarrow>
         (let cmd = query_inv c [TX_INDEX \<mapsto> VInt (index s)];
              s1 = addLastCommandErrorInfo cmd None s;
              (out, lg1) = send E cmd (s1, lg)
          in case out_rspInfo out of
               None \<Rightarrow> (s1, lg1)
             | Some r \<Rightarrow> (conf_set TX_ATTENUATION (dict_get r TX_ATTENUATION VNone) s1, lg1)))"

definition idx_TX :: "'a component_scheme \<Rightarrow> pydict" where
  "idx_TX s = [TX_INDEX \<mapsto> VInt (index s)]"

text \<open>\<^verbatim>\<open>_tx._queryConfiguration\<close>\<close>

definition tx_queryConfiguration ::
  "env \<Rightarrow> txclass \<Rightarrow> tx \<times> calllog \<Rightarrow> pyerr + tx \<times> calllog" where
  "tx_queryConfiguration E cls st =
     (let st = Configurable_queryConfiguration E st;
          st = query_keys E (tpwrCmd cls) idx_TX [(ENABLE, ENABLE, VInt 0)] st
      in thenE (query_frq E cls idx_TX TX_FREQUENCY st) (\<lambda>st.
           (let (s, lg) = tx_query_att E cls st
            in case toneGenType cls of
                 None \<Rightarrow> Inr (s, lg)
               | Some tg \<Rightarrow>
                   (let s1 = conf_set CONFIG_CW (VIdxDict []) s
                    in thenE (tx_query_children E (index s1) (toneGenDict s1)
                                ([], cmdErrorInfo s1, lg)) (\<lambda>(kids, cw, errs, lg1).
                         Inr (s1\<lparr>configuration := (configuration s1)(CONFIG_CW \<mapsto> VIdxDict cw),
                                  cmdErrorInfo := errs,
                                  toneGenDict := kids\<rparr>, lg1))))))"

text \<open>\<^verbatim>\<open>_tx.addTransport\<close>: the tone generators first, then \<^verbatim>\<open>_base.addTransport\<close>.\<close>

definition tx_addTransport ::
  "env \<Rightarrow> txclass \<Rightarrow> transport option \<Rightarrow> callback option \<Rightarrow> bool
     \<Rightarrow> tx \<times> calllog \<Rightarrow> pyerr + tx \<times> calllog" where
  "tx_addTransport E cls t cb queryConfig = (\<lambda>(s, lg).
     thenE (tx_addTransport_children E (index s) t cb queryConfig (toneGenDict s) lg)
       (\<lambda>(kids, lg1).
     addTransport (tx_queryConfiguration E cls) t cb queryConfig
       (s\<lparr>toneGenDict := kids\<rparr>, lg1)))"

text \<open>The attenuation block of \<^verbatim>\<open>_tx._setConfiguration\<close>.\<close>

definition tx_set_att ::
  "env \<Rightarrow> 'c pyclass_scheme \<Rightarrow> pydict \<Rightarrow> 'a setst \<Rightarrow> pyerr + 'a setst" where
  "tx_set_att E cls confDict = (\<lambda>(s, lg, ret).
     if confDict TX_ATTENUATION \<noteq> None then
       (case attCmd cls of
          None \<Rightarrow> Inr (s, lg, ret)
        | Some c \<Rightarrow>
            thenE (py_float E (dict_get confDict TX_ATTENUATION (VInt 0))) (\<lambda>rfAttIn.
            thenE (adjustAttenuation rfAttIn (attRange cls) (attRes cls) 1) (\<lambda>rfAttAdj.
              (let (out, s1, lg1, ret1) =
                     issue E (set_inv c [TX_INDEX \<mapsto> VInt (index s),
                                         TX_ATTENUATION \<mapsto> VFloat rfAttAdj]) (s, lg, ret)
               in Inr (if ret1 then conf_set TX_ATTENUATION (VFloat rfAttAdj) s1 else s1,
                       lg1, ret1)))))
     else Inr (s, lg, ret))"

text \<open>
  \<^verbatim>\<open>tgNum in d\<close>, \<^verbatim>\<open>d[tgNum]\<close> and \<^verbatim>\<open>**d\<close> on a Python value. A dictionary keyed by
  configuration key has no integer key; a value that is no dictionary raises TypeError,
  and so does \<^verbatim>\<open>**\<close> on a dictionary with integer keys.
\<close>

definition py_contains_idx :: "pyval \<Rightarrow> int \<Rightarrow> pyerr + bool" where
  "py_contains_idx v i =
     (case v of
        VIdxDict m \<Rightarrow> Inr (map_of m i \<noteq> None)
      | VDict d \<Rightarrow> Inr False
      | _ \<Rightarrow> Inl TypeError)"

definition py_item_idx :: "pyval \<Rightarrow> int \<Rightarrow> pyerr + pyval" where
  "py_item_idx v i =
     (case v of
        VIdxDict m \<Rightarrow> (case map_of m i of None \<Rightarrow> Inl (IndexKeyError i) | Some w \<Rightarrow> Inr w)
      | VDict d \<Rightarrow> Inl (IndexKeyError i)
      | _ \<Rightarrow> Inl TypeError)"

definition py_kwargs :: "pyval \<Rightarrow> pyerr + pydict" where
  "py_kwargs v =
     (case v of
        VDict d \<Rightarrow> Inr d
      | VIdxDict m \<Rightarrow> (if m = [] then Inr Map.empty else Inl TypeError)
      | _ \<Rightarrow> Inl TypeError)"

text \<open>\<^verbatim>\<open>self.toneGenDict[tgNum]\<close>\<close>

definition toneGen_item :: "tx \<Rightarrow> int \<Rightarrow> pyerr + pyclass \<times> component" where
  "toneGen_item s i =
     (case map_of (toneGenDict s) i of None \<Rightarrow> Inl (IndexKeyError i) | Some c \<Rightarrow> Inr c)"

text \<open>The generator at an index after a method has changed its attributes.\<close>

definition toneGen_store :: "int \<Rightarrow> component \<Rightarrow> tx \<Rightarrow> tx" where
  "toneGen_store i child s =
     s\<lparr>toneGenDict := map (\<lambda>(j, c, old). if j = i then (j, c, child) else (j, c, old))
                          (toneGenDict s)\<rparr>"

text \<open>
  The loop of \<^verbatim>\<open>_tx._setConfiguration\<close> over the tone generators. The value that the
  generator's \<^verbatim>\<open>setConfiguration\<close> returns is not used; its diagnostic list is spliced
  into the transmitter's.
\<close>

fun tx_set_children ::
  "env \<Rightarrow> pyval \<Rightarrow> int list \<Rightarrow> tx \<times> calllog \<Rightarrow> pyerr + tx \<times> calllog" where
  "tx_set_children E cw [] (s, lg) = Inr (s, lg)"
| "tx_set_children E cw (tgNum # rest) (s, lg) =
     thenE (py_contains_idx cw tgNum) (\<lambda>present.
       if present then
         thenE (toneGen_item s tgNum) (\<lambda>(c, child).
         thenE (py_item_idx cw tgNum) (\<lambda>sub.
         thenE (py_kwargs sub) (\<lambda>kwargs.
         thenE (setConfiguration (cwToneGen_setConfiguration E c (index s))
                  (validConfigurationKeywords c) kwargs (child, lg)) (\<lambda>(child1, lg1, r).
           (let s1 = toneGen_store tgNum child1 s;
                s2 = s1\<lparr>cmdErrorInfo := cmdErrorInfo s1 @ getLastCommandErrorInfo child1\<rparr>
            in tx_set_children E cw rest (s2, lg1))))))
       else tx_set_children E cw rest (s, lg))"

text \<open>\<^verbatim>\<open>_tx._setConfiguration\<close>\<close>

definition tx_setConfiguration ::
  "env \<Rightarrow> txclass \<Rightarrow> pydict \<Rightarrow> tx \<times> calllog \<times> bool \<Rightarrow> pyerr + tx \<times> calllog \<times> bool" where
  "tx_setConfiguration E cls confDict st =
     thenE (set_plain E (tpwrCmd cls) TX_INDEX ENABLE confDict st) (\<lambda>st.
     thenE (set_frq E cls TX_INDEX TX_FREQUENCY confDict st) (\<lambda>st.
     thenE (tx_set_att E cls confDict st) (\<lambda>(s, lg, ret).
       if 0 < numToneGen cls \<and> confDict CONFIG_CW \<noteq> None then
         thenE (dict_item confDict CONFIG_CW) (\<lambda>cw.
         thenE (tx_set_children E cw
                  [toneGenIndexBase cls .. toneGenIndexBase cls + numToneGen cls - 1] (s, lg))
           (\<lambda>(s1, lg1). Inr (s1, lg1, ret)))
       else Inr (s, lg, ret))))"

subsection \<open>The DUC\<close>

text \<open>The class attributes of \<^verbatim>\<open>_duc\<close>.\<close>

definition duc_class :: pyclass where
  "duc_class =
     \<lparr>frqRange = (- 51200000, 51200000), frqRes = 1, frqUnits = 1,
      attRange = (- 60, 60), attRes = 1 / 10,
      frqCmd = None, attCmd = None, agpCmd = None, tpwrCmd = None,
      fifCmd = None, tadjCmd = None, cfgCmd = Some ''duc'', dportCmd = None,
      toneCmd = None, sweepCmd = None, snapshotLoadCmd = None, snapshotTxCmd = None,
      validConfigurationKeywords =
        [DUC_DATA_PORT, DUC_FREQUENCY, DUC_ATTENUATION, DUC_RATE_INDEX, DUC_TX_CHANNELS,
         DUC_MODE, DUC_STREAM_ID, DUC_FILENAME, DUC_START_SAMPLE, DUC_SAMPLES,
         DUC_SINGLE_PLAYBACK]\<rparr>"

definition idx_DUC :: "'a component_scheme \<Rightarrow> pydict" where
  "idx_DUC s = [DUC_INDEX \<mapsto> VInt (index s)]"

definition duc_cfg_keys :: "key list" where
  "duc_cfg_keys =
     [DUC_DATA_PORT, DUC_FREQUENCY, DUC_ATTENUATION, DUC_RATE_INDEX, DUC_TX_CHANNELS,
      DUC_MODE, DUC_STREAM_ID]"

text \<open>
  The snapshot-load block of \<^verbatim>\<open>_duc._setConfiguration\<close>: issued when all three keys are
  requested; nothing is mirrored.
\<close>

definition duc_set_load :: "env \<Rightarrow> pyclass \<Rightarrow> pydict \<Rightarrow> 'a setst \<Rightarrow> pyerr + 'a setst" where
  "duc_set_load E cls confDict = (\<lambda>(s, lg, ret).
     if list_all (\<lambda>q. confDict q \<noteq> None) [DUC_FILENAME, DUC_START_SAMPLE, DUC_SAMPLES] then
       (case snapshotLoadCmd cls of
          None \<Rightarrow> Inr (s, lg, ret)
        | Some c \<Rightarrow>
            thenE (dict_item confDict DUC_FILENAME) (\<lambda>fname.
            thenE (dict_item confDict DUC_START_SAMPLE) (\<lambda>startSample.
            thenE (dict_item confDict DUC_SAMPLES) (\<lambda>samples.
              (let (out, s1, lg1, ret1) =
                     issue E (set_inv c [DUC_FILENAME \<mapsto> fname,
                                         DUC_INDEX \<mapsto> VInt (index s),
                                         DUC_START_SAMPLE \<mapsto> startSample,
                                         DUC_SAMPLES \<mapsto> samples]) (s, lg, ret)
               in Inr (s1, lg1, ret1))))))
     else Inr (s, lg, ret))"

text \<open>
  The snapshot-transmit block: entered when any of the three keys is requested; the
  dictionary display then reads all three from \<^verbatim>\<open>confDict\<close> with \<^verbatim>\<open>confDict[key]\<close>.
\<close>

definition duc_set_tx :: "env \<Rightarrow> pyclass \<Rightarrow> pydict \<Rightarrow> 'a setst \<Rightarrow> pyerr + 'a setst" where
  "duc_set_tx E cls confDict = (\<lambda>(s, lg, ret).
     if list_ex (\<lambda>q. confDict q \<noteq> None) [DUC_START_SAMPLE, DUC_SAMPLES, DUC_SINGLE_PLAYBACK] then
       (case snapshotTxCmd cls of
          None \<Rightarrow> Inr (s, lg, ret)
        | Some c \<Rightarrow>
            (let cDict = dictUpdate Map.empty confDict (configuration s)
                           [DUC_START_SAMPLE, DUC_SAMPLES, DUC_SINGLE_PLAYBACK]
             in thenE (dict_item confDict DUC_START_SAMPLE) (\<lambda>startSample.
                thenE (dict_item confDict DUC_SAMPLES) (\<lambda>samples.
                thenE (dict_item confDict DUC_SINGLE_PLAYBACK) (\<lambda>single.
                  (let (out, s1, lg1, ret1) =
                         issue E (set_inv c (cDict ++ [DUC_INDEX \<mapsto> VInt (index s),
                                                       DUC_START_SAMPLE \<mapsto> startSample,
                                                       DUC_SAMPLES \<mapsto> samples,
                                                       DUC_SINGLE_PLAYBACK \<mapsto> single]))
                           (s, lg, ret)
                   in Inr (s1, lg1, ret1)))))))
     else Inr (s, lg, ret))"

text \<open>\<^verbatim>\<open>_duc._setConfiguration\<close>\<close>

definition duc_setConfiguration :: "env \<Rightarrow> pyclass \<Rightarrow> pydict \<Rightarrow> 'a setst \<Rightarrow> pyerr + 'a setst" where
  "duc_setConfiguration E cls confDict st =
     thenE (set_group E (cfgCmd cls) idx_DUC duc_cfg_keys confDict st) (\<lambda>st.
     thenE (duc_set_load E cls confDict st) (\<lambda>st.
     duc_set_tx E cls confDict st))"

subsection \<open>Notions used in the statements\<close>

text \<open>
  The query command of class \<open>c\<close> for the component with index \<open>i\<close>, sent with the
  callback \<open>cb\<close> after the history \<open>h\<close> of sends, gets a parsable response without the
  field \<open>k\<close>.
\<close>

definition lacks_field ::
  "env \<Rightarrow> callback option \<Rightarrow> calllog \<Rightarrow> cmdclass \<Rightarrow> int \<Rightarrow> key \<Rightarrow> bool" where
  "lacks_field E cb h c i k =
     (case out_rspInfo (cmd_send E cb h (query_inv c [INDEX \<mapsto> VInt i])) of
        None \<Rightarrow> False
      | Some r \<Rightarrow> r k = None)"

text \<open>
  The entry that a query wiring with command \<open>cc\<close> adds to the call log: none when the
  class has no such command.
\<close>

definition sent_query :: "callback option \<Rightarrow> cmdclass option \<Rightarrow> int \<Rightarrow> calllog" where
  "sent_query cb cc i =
     (case cc of None \<Rightarrow> [] | Some c \<Rightarrow> [(cb, query_inv c [INDEX \<mapsto> VInt i])])"

text \<open>A tuner and a DDC that mirror values from an earlier query.\<close>

definition demo_tuner_state :: component where
  "demo_tuner_state =
     (component_init (Some 0) 1)
       \<lparr>configuration := [ENABLE \<mapsto> VInt 1, TUNER_FREQUENCY \<mapsto> VFloat 100000000,
                          TUNER_ATTENUATION \<mapsto> VFloat 10, TUNER_RF_ATTENUATION \<mapsto> VFloat 10]\<rparr>"

definition demo_ddc_state :: component where
  "demo_ddc_state =
     (component_init (Some 0) 2)
       \<lparr>configuration := [DDC_RATE_INDEX \<mapsto> VInt 3, DDC_FREQUENCY_OFFSET \<mapsto> VFloat 0]\<rparr>"

text \<open>An entry of the diagnostic list that records a failed invocation.\<close>

definition diag_failed :: "diag \<Rightarrow> bool" where
  "diag_failed d = (case snd d of None \<Rightarrow> False | Some out \<Rightarrow> \<not> ok out)"

text \<open>
  The query commands that a tone generator of class \<open>cls\<close> with index \<open>i\<close>, owned by
  the transmitter with index \<open>pidx\<close>, sends in one \<^verbatim>\<open>queryConfiguration\<close>.
\<close>

definition cw_query_cmds :: "pyclass \<Rightarrow> int \<Rightarrow> int \<Rightarrow> invocation list" where
  "cw_query_cmds cls pidx i =
     (case toneCmd cls of
        None \<Rightarrow> []
      | Some c \<Rightarrow> [query_inv c [CW_INDEX \<mapsto> VInt i, TX_INDEX \<mapsto> VInt pidx]])
     @ (case sweepCmd cls of
          None \<Rightarrow> []
        | Some c \<Rightarrow> [query_inv c [CW_INDEX \<mapsto> VInt i, TX_INDEX \<mapsto> VInt pidx]])"

text \<open>
  A mock of the collaborators, for running the model on concrete inputs: every send goes
  through, a command succeeds unless its class is listed as failing, a query is answered
  with the given response, a command object echoes its arguments as attributes, no
  string converts to a float, and the base-class hook does nothing.
\<close>

definition mock_env :: "cmdclass list \<Rightarrow> pydict option \<Rightarrow> env" where
  "mock_env failing rsp =
     \<lparr>cmd_send = (\<lambda>cb lg cmd.
        \<lparr>out_sent = True,
         out_success = (cmd_class cmd \<notin> set failing),
         out_rspInfo = (if cmd_query cmd then rsp else None),
         out_attr = (\<lambda>k. dict_get (cmd_args cmd) k VNone)\<rparr>),
      str_float = (\<lambda>s. None),
      base_query = (\<lambda>x. x)\<rparr>"

text \<open>The class attributes of \<^verbatim>\<open>_ddc\<close>, and a DDC class with all three commands.\<close>

definition ddc_class :: pyclass where
  "ddc_class =
     \<lparr>frqRange = (0, 0), frqRes = 1, frqUnits = 1,
      attRange = (0, 0), attRes = 1,
      frqCmd = None, attCmd = None, agpCmd = None, tpwrCmd = None,
      fifCmd = None, tadjCmd = None, cfgCmd = None, dportCmd = None,
      toneCmd = None, sweepCmd = None, snapshotLoadCmd = None, snapshotTxCmd = None,
      validConfigurationKeywords =
        [ENABLE, DDC_RATE_INDEX, DDC_UDP_DESTINATION, DDC_VITA_ENABLE, DDC_STREAM_ID]\<rparr>"

definition demo_ddc_class :: pyclass where
  "demo_ddc_class =
     ddc_class\<lparr>frqCmd := Some ''wbfrq'', cfgCmd := Some ''wbddc'', dportCmd := Some ''wbdp''\<rparr>"

text \<open>Concrete requests for the runs below.\<close>

definition demo_tuner_conf :: pydict where
  "demo_tuner_conf =
     [ENABLE \<mapsto> VInt 1, TUNER_FREQUENCY \<mapsto> VInt 100000000, TUNER_ATTENUATION \<mapsto> VInt 10]"

definition demo_ddc_conf :: pydict where
  "demo_ddc_conf =
     [DDC_DATA_PORT \<mapsto> VInt 2, DDC_FREQUENCY_OFFSET \<mapsto> VInt 5, DDC_RATE_INDEX \<mapsto> VInt 3]"

text \<open>
  A tuner whose frequency command fails while its power and attenuation commands
  succeed, asked for all three.
\<close>

definition demo_tuner_run :: "pyerr + component \<times> calllog \<times> bool" where
  "demo_tuner_run =
     tuner_setConfiguration (mock_env [''frq''] None) tuner_class demo_tuner_conf
       (component_init (Some 0) 1, [], True)"

text \<open>A DUC class with snapshot support, and a request that loads and plays a snapshot.\<close>

definition demo_duc_class :: pyclass where
  "demo_duc_class =
     duc_class\<lparr>snapshotLoadCmd := Some ''lsnap'', snapshotTxCmd := Some ''txsnap''\<rparr>"

definition demo_snapshot_conf :: pydict where
  "demo_snapshot_conf =
     [DUC_FILENAME \<mapsto> VStr ''wave.dat'', DUC_START_SAMPLE \<mapsto> VInt 0,
      DUC_SAMPLES \<mapsto> VInt 1024, DUC_SINGLE_PLAYBACK \<mapsto> VInt 1]"

text \<open>
  A transmitter class with one tone generator of class \<^verbatim>\<open>_cwToneGen\<close>, the transmitter
  that its constructor builds, and a request for the tone generator only.
\<close>

definition demo_tx_class :: txclass where
  "demo_tx_class = tx_class\<lparr>numToneGen := 1, toneGenType := Some cwToneGen_class\<rparr>"

definition demo_tx :: tx where
  "demo_tx =
     component.extend (component_init (Some 0) 1)
       \<lparr>toneGenDict = [(1, cwToneGen_class, component_init (Some 0) 1)]\<rparr>"

definition demo_cw_conf :: pydict where
  "demo_cw_conf = [CONFIG_CW \<mapsto> VIdxDict [(1, VDict [CW_FREQUENCY \<mapsto> VInt 1000])]]"

text \<open>The transmitter asked to configure its tone generator, whose tone command fails.\<close>

definition demo_tx_run :: "pyerr + tx \<times> calllog \<times> bool" where
  "demo_tx_run =
     tx_setConfiguration (mock_env [''cwt''] None) demo_tx_class demo_cw_conf
       (demo_tx, [], True)"

text \<open>
  The sends of the tone generators of a transmitter during \<^verbatim>\<open>addTransport\<close> with
  \<^verbatim>\<open>queryConfig=True\<close>: each generator in turn queries with the callback it was just
  given.
\<close>

definition children_attach_log ::
  "int \<Rightarrow> callback option \<Rightarrow> (int \<times> pyclass \<times> component) list \<Rightarrow> calllog" where
  "children_attach_log pidx cb kids =
     concat (map (\<lambda>(i, c, child). map (Pair cb) (cw_query_cmds c pidx (index child))) kids)"

text \<open>The transmitter above attached to transport 7 with callback 9.\<close>

definition demo_tx_attach :: "pyerr + tx \<times> calllog" where
  "demo_tx_attach =
     tx_addTransport (mock_env [] (Some Map.empty)) demo_tx_class (Some 7) (Some 9) True
       (demo_tx, [])"

section \<open>Properties of the numeric adjustment\<close>









lemma log_powi10: "log 10 (10 powi k) = of_int k"
proof (cases "0 \<le> k")
  case True
  then show ?thesis by (simp add: power_int_def)
next
  case False
  have "log 10 ((1 / 10) ^ nat (- k)) = real (nat (- k)) * log 10 (1 / 10)"
    by (rule log_nat_power) simp
  moreover have "log 10 (1 / 10) = - 1" by (simp add: log_divide)
  ultimately show ?thesis using False by (simp add: power_int_def)
qed

lemma py_int_of_int: "py_int (of_int k) = k"
  by (simp add: py_int_def)

lemma decimals_powi: "py_int (log 10 (1 / 10 powi k)) = - k"
proof -
  have "1 / 10 powi k = (10::real) powi (- k)" by (simp add: power_int_minus field_simps)
  then show ?thesis using log_powi10[of "- k"] py_int_of_int[of "- k"] by simp
qed

lemma grid_step_powi: "grid_step (10 powi k) = 10 powi k"
  by (simp add: grid_step_def decimals_powi)

lemma grid_step_1: "grid_step 1 = 1"
  using grid_step_powi[of 0] by simp

















section \<open>Detaching the transport\<close>

text \<open>
  Claim C9: \<^verbatim>\<open>delTransport\<close> sets the component's own transport and callback to
  \<^verbatim>\<open>None\<close> and changes nothing else. For a transmitter the tone generators (with their
  transports, callbacks and mirrored maps) are the same objects as before, and the
  component's own index, mirrored map and diagnostic list are unchanged; no command is
  sent, the method having no access to the call log.
\<close>

theorem delTransport_frame:
  "transport (delTransport s) = None
   \<and> callback (delTransport s) = None
   \<and> index (delTransport s) = index s
   \<and> configuration (delTransport s) = configuration s
   \<and> cmdErrorInfo (delTransport s) = cmdErrorInfo s
   \<and> component.more (delTransport s) = component.more s
   \<and> toneGenDict (delTransport (t :: tx)) = toneGenDict t"
  by (simp add: delTransport_def)

section \<open>Applying a configuration\<close>

lemma issue_eq:
  "issue E cmd (s, lg, ret) =
     (cmd_send E (callback s) lg cmd,
      addLastCommandErrorInfo cmd (Some (cmd_send E (callback s) lg cmd)) s,
      lg @ [(callback s, cmd)],
      ret \<and> ok (cmd_send E (callback s) lg cmd))"
  by (simp add: issue_def send_def ok_def)

lemma thenE_Inr [simp]: "thenE (Inr a) f = f a"
  by (simp add: thenE_def)

lemma thenE_Inl [simp]: "thenE (Inl e) f = Inl e"
  by (simp add: thenE_def)

lemma addLast_sel [simp]:
  "callback (addLastCommandErrorInfo cmd out s) = callback s"
  "index (addLastCommandErrorInfo cmd out s) = index s"
  "transport (addLastCommandErrorInfo cmd out s) = transport s"
  "configuration (addLastCommandErrorInfo cmd out s) = configuration s"
  "cmdErrorInfo (addLastCommandErrorInfo cmd out s) = cmdErrorInfo s @ [(cmd, out)]"
  by (simp_all add: addLastCommandErrorInfo_def)

lemma conf_set_sel [simp]:
  "callback (conf_set k v s) = callback s"
  "index (conf_set k v s) = index s"
  "transport (conf_set k v s) = transport s"
  "configuration (conf_set k v s) = (configuration s)(k \<mapsto> v)"
  "cmdErrorInfo (conf_set k v s) = cmdErrorInfo s"
  by (simp_all add: conf_set_def)

lemma set_plain_skip:
  "confDict k = None \<or> cmdCls = None \<Longrightarrow> set_plain E cmdCls idxKey k confDict st = Inr st"
  by (cases st) (auto simp: set_plain_def split: option.splits)

lemma set_plain_run:
  assumes "confDict k = Some v" and "cmdCls = Some c"
  shows "set_plain E cmdCls idxKey k confDict (s, lg, ret) =
     Inr (if ret \<and> ok (cmd_send E (callback s) lg (set_inv c [idxKey \<mapsto> VInt (index s), k \<mapsto> v]))
          then conf_set k (out_attr (cmd_send E (callback s) lg
                  (set_inv c [idxKey \<mapsto> VInt (index s), k \<mapsto> v])) k)
                 (addLastCommandErrorInfo (set_inv c [idxKey \<mapsto> VInt (index s), k \<mapsto> v])
                    (Some (cmd_send E (callback s) lg (set_inv c [idxKey \<mapsto> VInt (index s), k \<mapsto> v]))) s)
          else addLastCommandErrorInfo (set_inv c [idxKey \<mapsto> VInt (index s), k \<mapsto> v])
                    (Some (cmd_send E (callback s) lg (set_inv c [idxKey \<mapsto> VInt (index s), k \<mapsto> v]))) s,
          lg @ [(callback s, set_inv c [idxKey \<mapsto> VInt (index s), k \<mapsto> v])],
          ret \<and> ok (cmd_send E (callback s) lg (set_inv c [idxKey \<mapsto> VInt (index s), k \<mapsto> v])))"
  using assms by (simp add: set_plain_def issue_eq dict_get_def)

lemma set_frq_skip:
  "confDict k = None \<or> frqCmd cls = None \<Longrightarrow> set_frq E cls idxKey k confDict st = Inr st"
  by (cases st) (auto simp: set_frq_def split: option.splits)

lemma set_frq_run:
  assumes "confDict k = Some v" and "frqCmd cls = Some c"
    and "py_float E v = Inr f"
    and "adjustFrequency f (frqRange cls) (frqRes cls) (frqUnits cls) = Inr fa"
  shows "set_frq E cls idxKey k confDict (s, lg, ret) =
     Inr (if ret \<and> ok (cmd_send E (callback s) lg (set_inv c [idxKey \<mapsto> VInt (index s), k \<mapsto> VFloat fa]))
          then conf_set k (VFloat (fa * frqUnits cls))
                 (addLastCommandErrorInfo (set_inv c [idxKey \<mapsto> VInt (index s), k \<mapsto> VFloat fa])
                    (Some (cmd_send E (callback s) lg (set_inv c [idxKey \<mapsto> VInt (index s), k \<mapsto> VFloat fa]))) s)
          else addLastCommandErrorInfo (set_inv c [idxKey \<mapsto> VInt (index s), k \<mapsto> VFloat fa])
                    (Some (cmd_send E (callback s) lg (set_inv c [idxKey \<mapsto> VInt (index s), k \<mapsto> VFloat fa]))) s,
          lg @ [(callback s, set_inv c [idxKey \<mapsto> VInt (index s), k \<mapsto> VFloat fa])],
          ret \<and> ok (cmd_send E (callback s) lg (set_inv c [idxKey \<mapsto> VInt (index s), k \<mapsto> VFloat fa])))"
  using assms by (simp add: set_frq_def issue_eq dict_get_def)

lemma tuner_set_att_skip:
  "(confDict TUNER_ATTENUATION = None \<and> confDict TUNER_RF_ATTENUATION = None) \<or> attCmd cls = None
   \<Longrightarrow> tuner_set_att E cls confDict st = Inr st"
  by (cases st) (auto simp: tuner_set_att_def split: option.splits)

lemma tuner_set_att_run:
  assumes "confDict TUNER_ATTENUATION \<noteq> None \<or> confDict TUNER_RF_ATTENUATION \<noteq> None"
    and "attCmd cls = Some c"
    and "py_float E (dict_get confDict TUNER_RF_ATTENUATION
                       (dict_get confDict TUNER_ATTENUATION (VInt 0))) = Inr f"
    and "adjustAttenuation f (attRange cls) (attRes cls) 1 = Inr fa"
  shows "tuner_set_att E cls confDict (s, lg, ret) =
     Inr (if ret \<and> ok (cmd_send E (callback s) lg (set_inv c [INDEX \<mapsto> VInt (index s), TUNER_ATTENUATION \<mapsto> VFloat fa]))
          then conf_set TUNER_RF_ATTENUATION (VFloat fa) (conf_set TUNER_ATTENUATION (VFloat fa)
                 (addLastCommandErrorInfo (set_inv c [INDEX \<mapsto> VInt (index s), TUNER_ATTENUATION \<mapsto> VFloat fa])
                    (Some (cmd_send E (callback s) lg (set_inv c [INDEX \<mapsto> VInt (index s), TUNER_ATTENUATION \<mapsto> VFloat fa]))) s))
          else addLastCommandErrorInfo (set_inv c [INDEX \<mapsto> VInt (index s), TUNER_ATTENUATION \<mapsto> VFloat fa])
                    (Some (cmd_send E (callback s) lg (set_inv c [INDEX \<mapsto> VInt (index s), TUNER_ATTENUATION \<mapsto> VFloat fa]))) s,
          lg @ [(callback s, set_inv c [INDEX \<mapsto> VInt (index s), TUNER_ATTENUATION \<mapsto> VFloat fa])],
          ret \<and> ok (cmd_send E (callback s) lg (set_inv c [INDEX \<mapsto> VInt (index s), TUNER_ATTENUATION \<mapsto> VFloat fa])))"
  using assms by (auto simp: tuner_set_att_def issue_eq)

lemma decimals_million: "py_int (log 10 (1 / 1000000)) = - 6"
  using decimals_powi[of 6] by simp

lemma adjustFrequency_scenario:
  "adjustFrequency 2450000001 (20000000, 3000000000) 1000000 1000000 = Inr 2450"
  by (simp add: adjustFrequency_def res_decimals_def decimals_million numpy_around_def rint_def)

lemma adjustAttenuation_scenario: "adjustAttenuation (157 / 5) (0, 30) 1 1 = Inr 30"
  by (simp add: adjustAttenuation_def res_decimals_def py_int_def numpy_around_def rint_def)

lemma set_group_skip:
  "\<not> list_ex (\<lambda>q. confDict q \<noteq> None) keys \<or> cmdCls = None
   \<Longrightarrow> set_group E cmdCls idx keys confDict st = Inr st"
  by (cases st) (auto simp: set_group_def split: option.splits)

lemma set_group_run:
  assumes "list_ex (\<lambda>q. confDict q \<noteq> None) keys" and "cmdCls = Some c"
    and "cmd = set_inv c (dictUpdate Map.empty confDict (configuration s) keys ++ idx s)"
    and "out = cmd_send E (callback s) lg cmd"
  shows "set_group E cmdCls idx keys confDict (s, lg, ret) =
     Inr (if ret \<and> ok out
          then fold (\<lambda>key. conf_set key (out_attr out key)) keys
                 (addLastCommandErrorInfo cmd (Some out) s)
          else addLastCommandErrorInfo cmd (Some out) s,
          lg @ [(callback s, cmd)], ret \<and> ok out)"
  using assms by (simp add: set_group_def issue_eq Let_def)

lemma fold_conf_set_sel [simp]:
  "callback (fold (\<lambda>key. conf_set key (f key)) keys s) = callback s"
  "index (fold (\<lambda>key. conf_set key (f key)) keys s) = index s"
  "transport (fold (\<lambda>key. conf_set key (f key)) keys s) = transport s"
  "cmdErrorInfo (fold (\<lambda>key. conf_set key (f key)) keys s) = cmdErrorInfo s"
  by (induction keys arbitrary: s) simp_all

lemma tuner_three_wirings:
  assumes cmds: "tpwrCmd cls = Some a" "frqCmd cls = Some b" "attCmd cls = Some c"
    and en: "confDict ENABLE = Some en"
    and fv: "confDict TUNER_FREQUENCY = Some fv"
    and att: "confDict TUNER_ATTENUATION \<noteq> None \<or> confDict TUNER_RF_ATTENUATION \<noteq> None"
    and rest: "confDict TUNER_AGP = None \<or> agpCmd cls = None"
       "confDict TUNER_FILTER = None \<or> fifCmd cls = None"
       "confDict TUNER_TIMING_ADJ = None \<or> tadjCmd cls = None"
    and conv: "py_float E fv = Inr f"
       "adjustFrequency f (frqRange cls) (frqRes cls) (frqUnits cls) = Inr fa"
       "py_float E (dict_get confDict TUNER_RF_ATTENUATION
                      (dict_get confDict TUNER_ATTENUATION (VInt 0))) = Inr t"
       "adjustAttenuation t (attRange cls) (attRes cls) 1 = Inr ta"
    and cA: "cmdA = set_inv a [INDEX \<mapsto> VInt (index s), ENABLE \<mapsto> en]"
    and cB: "cmdB = set_inv b [INDEX \<mapsto> VInt (index s), TUNER_FREQUENCY \<mapsto> VFloat fa]"
    and cC: "cmdC = set_inv c [INDEX \<mapsto> VInt (index s), TUNER_ATTENUATION \<mapsto> VFloat ta]"
    and oA: "oA = cmd_send E (callback s) lg cmdA"
    and oB: "oB = cmd_send E (callback s) (lg @ [(callback s, cmdA)]) cmdB"
    and oC: "oC = cmd_send E (callback s) (lg @ [(callback s, cmdA), (callback s, cmdB)]) cmdC"
    and oks: "ok oA" "\<not> ok oB" "ok oC"
  shows "tuner_setConfiguration E cls confDict (s, lg, True) =
     Inr (s\<lparr>configuration := (configuration s)(ENABLE \<mapsto> out_attr oA ENABLE),
            cmdErrorInfo := cmdErrorInfo s @ [(cmdA, Some oA), (cmdB, Some oB), (cmdC, Some oC)]\<rparr>,
          lg @ [(callback s, cmdA), (callback s, cmdB), (callback s, cmdC)], False)"
proof -
  have 1: "set_plain E (tpwrCmd cls) INDEX ENABLE confDict (s, lg, True) =
     Inr (conf_set ENABLE (out_attr oA ENABLE) (addLastCommandErrorInfo cmdA (Some oA) s),
          lg @ [(callback s, cmdA)], True)"
    using oks(1) by (simp add: set_plain_run[where v = en and c = a] en cmds cA oA)
  have 2: "set_frq E cls INDEX TUNER_FREQUENCY confDict
             (conf_set ENABLE (out_attr oA ENABLE) (addLastCommandErrorInfo cmdA (Some oA) s),
              lg @ [(callback s, cmdA)], True) =
     Inr (addLastCommandErrorInfo cmdB (Some oB)
            (conf_set ENABLE (out_attr oA ENABLE) (addLastCommandErrorInfo cmdA (Some oA) s)),
          lg @ [(callback s, cmdA), (callback s, cmdB)], False)"
    using oks(2) by (simp add: set_frq_run[where v = fv and c = b and f = f and fa = fa] fv cmds conv cB oB)
  have 3: "tuner_set_att E cls confDict
             (addLastCommandErrorInfo cmdB (Some oB)
                (conf_set ENABLE (out_attr oA ENABLE) (addLastCommandErrorInfo cmdA (Some oA) s)),
              lg @ [(callback s, cmdA), (callback s, cmdB)], False) =
     Inr (addLastCommandErrorInfo cmdC (Some oC) (addLastCommandErrorInfo cmdB (Some oB)
            (conf_set ENABLE (out_attr oA ENABLE) (addLastCommandErrorInfo cmdA (Some oA) s))),
          lg @ [(callback s, cmdA), (callback s, cmdB), (callback s, cmdC)], False)"
    using att by (simp add: tuner_set_att_run[where c = c and f = t and fa = ta] cmds conv cC oC)
  have "tuner_setConfiguration E cls confDict (s, lg, True) =
     Inr (addLastCommandErrorInfo cmdC (Some oC) (addLastCommandErrorInfo cmdB (Some oB)
            (conf_set ENABLE (out_attr oA ENABLE) (addLastCommandErrorInfo cmdA (Some oA) s))),
          lg @ [(callback s, cmdA), (callback s, cmdB), (callback s, cmdC)], False)"
    by (simp add: tuner_setConfiguration_def 1 2 3 set_plain_skip rest)
  then show ?thesis
    by (simp add: addLastCommandErrorInfo_def conf_set_def)
qed

lemma ddc_three_wirings:
  assumes cmds: "dportCmd cls = Some a" "frqCmd cls = Some b" "cfgCmd cls = Some c"
    and dp: "confDict DDC_DATA_PORT \<noteq> None"
    and fv: "confDict DDC_FREQUENCY_OFFSET = Some fv"
    and cfg: "list_ex (\<lambda>q. confDict q \<noteq> None) ddc_cfg_keys"
    and conv: "py_float E fv = Inr f"
       "adjustFrequency f (frqRange cls) (frqRes cls) (frqUnits cls) = Inr fa"
    and cA: "cmdA = set_inv a (dictUpdate Map.empty confDict (configuration s) [DDC_DATA_PORT]
                               ++ idx_INDEX s)"
    and cB: "cmdB = set_inv b [INDEX \<mapsto> VInt (index s), DDC_FREQUENCY_OFFSET \<mapsto> VFloat fa]"
    and cC: "cmdC = set_inv c (dictUpdate Map.empty confDict
                                 ((configuration s)(DDC_DATA_PORT \<mapsto> out_attr oA DDC_DATA_PORT))
                                 ddc_cfg_keys ++ idx_INDEX s)"
    and oA: "oA = cmd_send E (callback s) lg cmdA"
    and oB: "oB = cmd_send E (callback s) (lg @ [(callback s, cmdA)]) cmdB"
    and oC: "oC = cmd_send E (callback s) (lg @ [(callback s, cmdA), (callback s, cmdB)]) cmdC"
    and oks: "ok oA" "\<not> ok oB" "ok oC"
  shows "ddc_setConfiguration E cls confDict (s, lg, True) =
     Inr (s\<lparr>configuration := (configuration s)(DDC_DATA_PORT \<mapsto> out_attr oA DDC_DATA_PORT),
            cmdErrorInfo := cmdErrorInfo s @ [(cmdA, Some oA), (cmdB, Some oB), (cmdC, Some oC)]\<rparr>,
          lg @ [(callback s, cmdA), (callback s, cmdB), (callback s, cmdC)], False)"
proof -
  have dp': "list_ex (\<lambda>q. confDict q \<noteq> None) [DDC_DATA_PORT]" using dp by simp
  have 1: "set_group E (dportCmd cls) idx_INDEX [DDC_DATA_PORT] confDict (s, lg, True) =
     Inr (conf_set DDC_DATA_PORT (out_attr oA DDC_DATA_PORT)
            (addLastCommandErrorInfo cmdA (Some oA) s),
          lg @ [(callback s, cmdA)], True)"
    using oks(1) dp' by (simp add: set_group_run[where c = a and cmd = cmdA and out = oA] cmds cA oA)
  have 2: "set_frq E cls INDEX DDC_FREQUENCY_OFFSET confDict
             (conf_set DDC_DATA_PORT (out_attr oA DDC_DATA_PORT)
                (addLastCommandErrorInfo cmdA (Some oA) s),
              lg @ [(callback s, cmdA)], True) =
     Inr (addLastCommandErrorInfo cmdB (Some oB)
            (conf_set DDC_DATA_PORT (out_attr oA DDC_DATA_PORT)
               (addLastCommandErrorInfo cmdA (Some oA) s)),
          lg @ [(callback s, cmdA), (callback s, cmdB)], False)"
    using oks(2) by (simp add: set_frq_run[where v = fv and c = b and f = f and fa = fa] fv cmds conv cB oB)
  have 3: "set_group E (cfgCmd cls) idx_INDEX ddc_cfg_keys confDict
             (addLastCommandErrorInfo cmdB (Some oB)
                (conf_set DDC_DATA_PORT (out_attr oA DDC_DATA_PORT)
                   (addLastCommandErrorInfo cmdA (Some oA) s)),
              lg @ [(callback s, cmdA), (callback s, cmdB)], False) =
     Inr (addLastCommandErrorInfo cmdC (Some oC) (addLastCommandErrorInfo cmdB (Some oB)
            (conf_set DDC_DATA_PORT (out_attr oA DDC_DATA_PORT)
               (addLastCommandErrorInfo cmdA (Some oA) s))),
          lg @ [(callback s, cmdA), (callback s, cmdB), (callback s, cmdC)], False)"
    using cfg by (subst set_group_run[where c = c and cmd = cmdC and out = oC])
       (simp_all add: cmds cC oC idx_INDEX_def)
  have "ddc_setConfiguration E cls confDict (s, lg, True) =
     Inr (addLastCommandErrorInfo cmdC (Some oC) (addLastCommandErrorInfo cmdB (Some oB)
            (conf_set DDC_DATA_PORT (out_attr oA DDC_DATA_PORT)
               (addLastCommandErrorInfo cmdA (Some oA) s))),
          lg @ [(callback s, cmdA), (callback s, cmdB), (callback s, cmdC)], False)"
    by (simp add: ddc_setConfiguration_def 1 2 3)
  then show ?thesis
    by (simp add: addLastCommandErrorInfo_def conf_set_def)
qed

lemma failed_middle:
  "ok oA \<Longrightarrow> \<not> ok oB \<Longrightarrow> ok oC \<Longrightarrow>
   filter diag_failed [(cmdA, Some oA), (cmdB, Some oB), (cmdC, Some oC)] = [(cmdB, Some oB)]"
  by (simp add: diag_failed_def)

lemma adjustFrequency_demo:
  "adjustFrequency 100000000 (20000000, 3000000000) 1000000 1000000 = Inr 100"
  by (simp add: adjustFrequency_def res_decimals_def decimals_million numpy_around_def rint_def)

lemma adjustAttenuation_demo: "adjustAttenuation 10 (0, 30) 1 1 = Inr 10"
  by (simp add: adjustAttenuation_def res_decimals_def py_int_def numpy_around_def rint_def)

lemma adjustFrequency_zero_range: "adjustFrequency 5 (0, 0) 1 1 = Inr 0"
  by (simp add: adjustFrequency_def res_decimals_def py_int_def numpy_around_def rint_def)

lemma mock_env_sel [simp]:
  "cmd_send (mock_env failing rsp) cb lg cmd =
     \<lparr>out_sent = True, out_success = (cmd_class cmd \<notin> set failing),
      out_rspInfo = (if cmd_query cmd then rsp else None),
      out_attr = (\<lambda>k. dict_get (cmd_args cmd) k VNone)\<rparr>"
  "str_float (mock_env failing rsp) = (\<lambda>s. None)"
  "base_query (mock_env failing rsp) = (\<lambda>x. x)"
  by (simp_all add: mock_env_def)

lemma tuner_class_sel [simp]:
  "tpwrCmd tuner_class = Some ''tpwr''" "frqCmd tuner_class = Some ''frq''"
  "attCmd tuner_class = Some ''att''" "agpCmd tuner_class = None" "fifCmd tuner_class = None"
  "tadjCmd tuner_class = None" "frqRange tuner_class = (20000000, 3000000000)"
  "frqRes tuner_class = 1000000" "frqUnits tuner_class = 1000000"
  "attRange tuner_class = (0, 30)" "attRes tuner_class = 1"
  by (simp_all add: tuner_class_def)

lemma demo_tuner_run_eq:
  "demo_tuner_run =
     Inr ((component_init (Some 0) 1)
            \<lparr>configuration := (configuration (component_init (Some 0) 1))(ENABLE \<mapsto> VInt 1),
              cmdErrorInfo := cmdErrorInfo (component_init (Some 0) 1) @
                [(set_inv ''tpwr'' [INDEX \<mapsto> VInt 1, ENABLE \<mapsto> VInt 1],
                  Some (cmd_send (mock_env [''frq''] None) (Some 0) []
                          (set_inv ''tpwr'' [INDEX \<mapsto> VInt 1, ENABLE \<mapsto> VInt 1]))),
                 (set_inv ''frq'' [INDEX \<mapsto> VInt 1, TUNER_FREQUENCY \<mapsto> VFloat 100],
                  Some (cmd_send (mock_env [''frq''] None) (Some 0)
                          [(Some 0, set_inv ''tpwr'' [INDEX \<mapsto> VInt 1, ENABLE \<mapsto> VInt 1])]
                          (set_inv ''frq'' [INDEX \<mapsto> VInt 1, TUNER_FREQUENCY \<mapsto> VFloat 100]))),
                 (set_inv ''att'' [INDEX \<mapsto> VInt 1, TUNER_ATTENUATION \<mapsto> VFloat 10],
                  Some (cmd_send (mock_env [''frq''] None) (Some 0)
                          [(Some 0, set_inv ''tpwr'' [INDEX \<mapsto> VInt 1, ENABLE \<mapsto> VInt 1]),
                           (Some 0, set_inv ''frq'' [INDEX \<mapsto> VInt 1, TUNER_FREQUENCY \<mapsto> VFloat 100])]
                          (set_inv ''att'' [INDEX \<mapsto> VInt 1, TUNER_ATTENUATION \<mapsto> VFloat 10])))]\<rparr>,
          [] @ [(Some 0, set_inv ''tpwr'' [INDEX \<mapsto> VInt 1, ENABLE \<mapsto> VInt 1]),
           (Some 0, set_inv ''frq'' [INDEX \<mapsto> VInt 1, TUNER_FREQUENCY \<mapsto> VFloat 100]),
           (Some 0, set_inv ''att'' [INDEX \<mapsto> VInt 1, TUNER_ATTENUATION \<mapsto> VFloat 10])], False)"
  unfolding demo_tuner_run_def
  by (subst tuner_three_wirings[where a = "''tpwr''" and b = "''frq''" and c = "''att''"
        and en = "VInt 1" and fv = "VInt 100000000" and f = 100000000 and fa = 100
        and t = 10 and ta = 10
        and cmdA = "set_inv ''tpwr'' [INDEX \<mapsto> VInt 1, ENABLE \<mapsto> VInt 1]"
        and cmdB = "set_inv ''frq'' [INDEX \<mapsto> VInt 1, TUNER_FREQUENCY \<mapsto> VFloat 100]"
        and cmdC = "set_inv ''att'' [INDEX \<mapsto> VInt 1, TUNER_ATTENUATION \<mapsto> VFloat 10]"
        and oA = "cmd_send (mock_env [''frq''] None) (Some 0) []
                    (set_inv ''tpwr'' [INDEX \<mapsto> VInt 1, ENABLE \<mapsto> VInt 1])"
        and oB = "cmd_send (mock_env [''frq''] None) (Some 0)
                    [(Some 0, set_inv ''tpwr'' [INDEX \<mapsto> VInt 1, ENABLE \<mapsto> VInt 1])]
                    (set_inv ''frq'' [INDEX \<mapsto> VInt 1, TUNER_FREQUENCY \<mapsto> VFloat 100])"
        and oC = "cmd_send (mock_env [''frq''] None) (Some 0)
                    [(Some 0, set_inv ''tpwr'' [INDEX \<mapsto> VInt 1, ENABLE \<mapsto> VInt 1]),
                     (Some 0, set_inv ''frq'' [INDEX \<mapsto> VInt 1, TUNER_FREQUENCY \<mapsto> VFloat 100])]
                    (set_inv ''att'' [INDEX \<mapsto> VInt 1, TUNER_ATTENUATION \<mapsto> VFloat 10])"])
     (simp_all add: demo_tuner_conf_def component_init_def py_float_def dict_get_def
        adjustFrequency_demo adjustAttenuation_demo ok_def set_inv_def)

lemma demo_ddc_class_sel [simp]:
  "dportCmd demo_ddc_class = Some ''wbdp''" "frqCmd demo_ddc_class = Some ''wbfrq''"
  "cfgCmd demo_ddc_class = Some ''wbddc''" "frqRange demo_ddc_class = (0, 0)"
  "frqRes demo_ddc_class = 1" "frqUnits demo_ddc_class = 1"
  by (simp_all add: demo_ddc_class_def ddc_class_def)

text \<open>
  Claim C1, as stated: with three wirings A, B, C of which B fails, the mirrored map is
  updated for the keys of A and of C. The tuner is asked for power (A), frequency (B)
  and attenuation (C); the frequency command fails, the other two succeed. All three
  commands are sent, but the attenuation entries stay absent: each wiring writes the
  mirrored map under \<^verbatim>\<open>if ret:\<close>, and \<^verbatim>\<open>ret\<close> is the conjunction over all commands
  so far.
\<close>

theorem partial_failure_counterexample:
  "ok (cmd_send (mock_env [''frq''] None) (Some 0) []
         (set_inv ''tpwr'' [INDEX \<mapsto> VInt 1, ENABLE \<mapsto> VInt 1]))
   \<and> \<not> ok (cmd_send (mock_env [''frq''] None) (Some 0)
         [(Some 0, set_inv ''tpwr'' [INDEX \<mapsto> VInt 1, ENABLE \<mapsto> VInt 1])]
         (set_inv ''frq'' [INDEX \<mapsto> VInt 1, TUNER_FREQUENCY \<mapsto> VFloat 100]))
   \<and> ok (cmd_send (mock_env [''frq''] None) (Some 0)
         [(Some 0, set_inv ''tpwr'' [INDEX \<mapsto> VInt 1, ENABLE \<mapsto> VInt 1]),
          (Some 0, set_inv ''frq'' [INDEX \<mapsto> VInt 1, TUNER_FREQUENCY \<mapsto> VFloat 100])]
         (set_inv ''att'' [INDEX \<mapsto> VInt 1, TUNER_ATTENUATION \<mapsto> VFloat 10]))
   \<and> \<not> isl demo_tuner_run
   \<and> map (cmd_class \<circ> snd) (fst (snd (projr demo_tuner_run))) = [''tpwr'', ''frq'', ''att'']
   \<and> configuration (fst (projr demo_tuner_run)) ENABLE = Some (VInt 1)
   \<and> configuration (fst (projr demo_tuner_run)) TUNER_ATTENUATION = None
   \<and> configuration (fst (projr demo_tuner_run)) TUNER_RF_ATTENUATION = None"
  by (simp add: demo_tuner_run_eq ok_def set_inv_def component_init_def)

text \<open>
  Claim C1, amended: when a call of \<^verbatim>\<open>_setConfiguration\<close> triggers three wirings A, B,
  C in that order (tuner: power, frequency, attenuation; DDC: data port, frequency,
  configuration), B fails and A and C succeed, then all three commands are sent, the
  mirrored map is updated for the key of A only (the keys of B and of C keep their
  values), the call returns false, and the three entries that the call appends to the
  diagnostic list hold exactly one failure, the one of B.
\<close>

theorem partial_failure_gates_later_wirings:
  assumes "tpwrCmd cls = Some a" and "frqCmd cls = Some b" and "attCmd cls = Some c"
    and "confDict ENABLE = Some en"
    and "confDict TUNER_FREQUENCY = Some fv"
    and "confDict TUNER_ATTENUATION \<noteq> None \<or> confDict TUNER_RF_ATTENUATION \<noteq> None"
    and "confDict TUNER_AGP = None \<or> agpCmd cls = None"
    and "confDict TUNER_FILTER = None \<or> fifCmd cls = None"
    and "confDict TUNER_TIMING_ADJ = None \<or> tadjCmd cls = None"
    and "py_float E fv = Inr f"
    and "adjustFrequency f (frqRange cls) (frqRes cls) (frqUnits cls) = Inr fa"
    and "py_float E (dict_get confDict TUNER_RF_ATTENUATION
                       (dict_get confDict TUNER_ATTENUATION (VInt 0))) = Inr t"
    and "adjustAttenuation t (attRange cls) (attRes cls) 1 = Inr ta"
    and "cmdA = set_inv a [INDEX \<mapsto> VInt (index s), ENABLE \<mapsto> en]"
    and "cmdB = set_inv b [INDEX \<mapsto> VInt (index s), TUNER_FREQUENCY \<mapsto> VFloat fa]"
    and "cmdC = set_inv c [INDEX \<mapsto> VInt (index s), TUNER_ATTENUATION \<mapsto> VFloat ta]"
    and "oA = cmd_send E (callback s) lg cmdA"
    and "oB = cmd_send E (callback s) (lg @ [(callback s, cmdA)]) cmdB"
    and "oC = cmd_send E (callback s) (lg @ [(callback s, cmdA), (callback s, cmdB)]) cmdC"
    and "ok oA" and "\<not> ok oB" and "ok oC"
    and "dportCmd dcls = Some da" and "frqCmd dcls = Some db" and "cfgCmd dcls = Some dc"
    and "dconf DDC_DATA_PORT \<noteq> None"
    and "dconf DDC_FREQUENCY_OFFSET = Some dv"
    and "list_ex (\<lambda>q. dconf q \<noteq> None) ddc_cfg_keys"
    and "py_float E dv = Inr df"
    and "adjustFrequency df (frqRange dcls) (frqRes dcls) (frqUnits dcls) = Inr dfa"
    and "dcmdA = set_inv da (dictUpdate Map.empty dconf (configuration ds) [DDC_DATA_PORT]
                              ++ idx_INDEX ds)"
    and "dcmdB = set_inv db [INDEX \<mapsto> VInt (index ds), DDC_FREQUENCY_OFFSET \<mapsto> VFloat dfa]"
    and "dcmdC = set_inv dc (dictUpdate Map.empty dconf
                               ((configuration ds)(DDC_DATA_PORT \<mapsto> out_attr doA DDC_DATA_PORT))
                               ddc_cfg_keys ++ idx_INDEX ds)"
    and "doA = cmd_send E (callback ds) dlg dcmdA"
    and "doB = cmd_send E (callback ds) (dlg @ [(callback ds, dcmdA)]) dcmdB"
    and "doC = cmd_send E (callback ds) (dlg @ [(callback ds, dcmdA), (callback ds, dcmdB)]) dcmdC"
    and "ok doA" and "\<not> ok doB" and "ok doC"
  shows "(\<exists>s'. tuner_setConfiguration E cls confDict (s, lg, True)
                = Inr (s', lg @ [(callback s, cmdA), (callback s, cmdB), (callback s, cmdC)], False)
              \<and> configuration s' = (configuration s)(ENABLE \<mapsto> out_attr oA ENABLE)
              \<and> cmdErrorInfo s' = cmdErrorInfo s @ [(cmdA, Some oA), (cmdB, Some oB), (cmdC, Some oC)]
              \<and> filter diag_failed [(cmdA, Some oA), (cmdB, Some oB), (cmdC, Some oC)]
                  = [(cmdB, Some oB)])
       \<and> (\<exists>s'. ddc_setConfiguration E dcls dconf (ds, dlg, True)
                = Inr (s', dlg @ [(callback ds, dcmdA), (callback ds, dcmdB), (callback ds, dcmdC)], False)
              \<and> configuration s' = (configuration ds)(DDC_DATA_PORT \<mapsto> out_attr doA DDC_DATA_PORT)
              \<and> cmdErrorInfo s' = cmdErrorInfo ds @ [(dcmdA, Some doA), (dcmdB, Some doB), (dcmdC, Some doC)]
              \<and> filter diag_failed [(dcmdA, Some doA), (dcmdB, Some doB), (dcmdC, Some doC)]
                  = [(dcmdB, Some doB)])"
proof (intro conjI)
  have t: "tuner_setConfiguration E cls confDict (s, lg, True) =
     Inr (s\<lparr>configuration := (configuration s)(ENABLE \<mapsto> out_attr oA ENABLE),
            cmdErrorInfo := cmdErrorInfo s @ [(cmdA, Some oA), (cmdB, Some oB), (cmdC, Some oC)]\<rparr>,
          lg @ [(callback s, cmdA), (callback s, cmdB), (callback s, cmdC)], False)"
    using assms(1-22)
    by (intro tuner_three_wirings[where a = a and b = b and c = c and en = en and fv = fv
          and f = f and fa = fa and t = t and ta = ta]) 
  show "\<exists>s'. tuner_setConfiguration E cls confDict (s, lg, True)
                = Inr (s', lg @ [(callback s, cmdA), (callback s, cmdB), (callback s, cmdC)], False)
              \<and> configuration s' = (configuration s)(ENABLE \<mapsto> out_attr oA ENABLE)
              \<and> cmdErrorInfo s' = cmdErrorInfo s @ [(cmdA, Some oA), (cmdB, Some oB), (cmdC, Some oC)]
              \<and> filter diag_failed [(cmdA, Some oA), (cmdB, Some oB), (cmdC, Some oC)]
                  = [(cmdB, Some oB)]"
    using assms(20-22) by (simp add: t diag_failed_def)
  have d: "ddc_setConfiguration E dcls dconf (ds, dlg, True) =
     Inr (ds\<lparr>configuration := (configuration ds)(DDC_DATA_PORT \<mapsto> out_attr doA DDC_DATA_PORT),
            cmdErrorInfo := cmdErrorInfo ds @ [(dcmdA, Some doA), (dcmdB, Some doB), (dcmdC, Some doC)]\<rparr>,
          dlg @ [(callback ds, dcmdA), (callback ds, dcmdB), (callback ds, dcmdC)], False)"
    using assms(23-39)
    by (intro ddc_three_wirings[where a = da and b = db and c = dc and fv = dv
          and f = df and fa = dfa])
  show "\<exists>s'. ddc_setConfiguration E dcls dconf (ds, dlg, True)
                = Inr (s', dlg @ [(callback ds, dcmdA), (callback ds, dcmdB), (callback ds, dcmdC)], False)
              \<and> configuration s' = (configuration ds)(DDC_DATA_PORT \<mapsto> out_attr doA DDC_DATA_PORT)
              \<and> cmdErrorInfo s' = cmdErrorInfo ds @ [(dcmdA, Some doA), (dcmdB, Some doB), (dcmdC, Some doC)]
              \<and> filter diag_failed [(dcmdA, Some doA), (dcmdB, Some doB), (dcmdC, Some doC)]
                  = [(dcmdB, Some doB)]"
    using assms(37-39) by (simp add: d diag_failed_def)
qed

theorem partial_failure_gates_later_wirings_witness:
  "(\<exists>s' lg'. tuner_setConfiguration (mock_env [''frq'', ''wbfrq''] None) tuner_class
               demo_tuner_conf (component_init (Some 0) 1, [], True) = Inr (s', lg', False)
        \<and> map (cmd_class \<circ> snd) lg' = [''tpwr'', ''frq'', ''att'']
        \<and> configuration s' ENABLE = Some (VInt 1)
        \<and> configuration s' TUNER_FREQUENCY = None
        \<and> configuration s' TUNER_ATTENUATION = None
        \<and> map (diag_failed) (cmdErrorInfo s') = [False, True, False])
   \<and> (\<exists>s' lg'. ddc_setConfiguration (mock_env [''frq'', ''wbfrq''] None) demo_ddc_class
               demo_ddc_conf (component_init (Some 0) 2, [], True) = Inr (s', lg', False)
        \<and> map (cmd_class \<circ> snd) lg' = [''wbdp'', ''wbfrq'', ''wbddc'']
        \<and> configuration s' DDC_DATA_PORT = Some (VInt 2)
        \<and> configuration s' DDC_FREQUENCY_OFFSET = None
        \<and> configuration s' DDC_RATE_INDEX = None
        \<and> map (diag_failed) (cmdErrorInfo s') = [False, True, False])"
  using partial_failure_gates_later_wirings[where E = "mock_env [''frq'', ''wbfrq''] None"
      and cls = tuner_class and confDict = demo_tuner_conf
      and s = "component_init (Some 0) 1" and lg = "[]"
      and a = "''tpwr''" and b = "''frq''" and c = "''att''"
      and en = "VInt 1" and fv = "VInt 100000000" and f = 100000000 and fa = 100
      and t = 10 and ta = 10
      and cmdA = "set_inv ''tpwr'' [INDEX \<mapsto> VInt 1, ENABLE \<mapsto> VInt 1]"
      and cmdB = "set_inv ''frq'' [INDEX \<mapsto> VInt 1, TUNER_FREQUENCY \<mapsto> VFloat 100]"
      and cmdC = "set_inv ''att'' [INDEX \<mapsto> VInt 1, TUNER_ATTENUATION \<mapsto> VFloat 10]"
      and oA = "cmd_send (mock_env [''frq'', ''wbfrq''] None) (Some 0) []
                  (set_inv ''tpwr'' [INDEX \<mapsto> VInt 1, ENABLE \<mapsto> VInt 1])"
      and oB = "cmd_send (mock_env [''frq'', ''wbfrq''] None) (Some 0)
                  [(Some 0, set_inv ''tpwr'' [INDEX \<mapsto> VInt 1, ENABLE \<mapsto> VInt 1])]
                  (set_inv ''frq'' [INDEX \<mapsto> VInt 1, TUNER_FREQUENCY \<mapsto> VFloat 100])"
      and oC = "cmd_send (mock_env [''frq'', ''wbfrq''] None) (Some 0)
                  [(Some 0, set_inv ''tpwr'' [INDEX \<mapsto> VInt 1, ENABLE \<mapsto> VInt 1]),
                   (Some 0, set_inv ''frq'' [INDEX \<mapsto> VInt 1, TUNER_FREQUENCY \<mapsto> VFloat 100])]
                  (set_inv ''att'' [INDEX \<mapsto> VInt 1, TUNER_ATTENUATION \<mapsto> VFloat 10])"
      and dcls = demo_ddc_class and dconf = demo_ddc_conf
      and ds = "component_init (Some 0) 2" and dlg = "[]"
      and da = "''wbdp''" and db = "''wbfrq''" and dc = "''wbddc''"
      and dv = "VInt 5" and df = 5 and dfa = 0
      and dcmdA = "set_inv ''wbdp'' (dictUpdate Map.empty demo_ddc_conf Map.empty [DDC_DATA_PORT]
                                     ++ [INDEX \<mapsto> VInt 2])"
      and dcmdB = "set_inv ''wbfrq'' [INDEX \<mapsto> VInt 2, DDC_FREQUENCY_OFFSET \<mapsto> VFloat 0]"
      and dcmdC = "set_inv ''wbddc'' (dictUpdate Map.empty demo_ddc_conf
                                      [DDC_DATA_PORT \<mapsto> VInt 2] ddc_cfg_keys ++ [INDEX \<mapsto> VInt 2])"
      and doA = "cmd_send (mock_env [''frq'', ''wbfrq''] None) (Some 0) []
                  (set_inv ''wbdp'' (dictUpdate Map.empty demo_ddc_conf Map.empty [DDC_DATA_PORT]
                                     ++ [INDEX \<mapsto> VInt 2]))"
      and doB = "cmd_send (mock_env [''frq'', ''wbfrq''] None) (Some 0)
                  [(Some 0, set_inv ''wbdp'' (dictUpdate Map.empty demo_ddc_conf Map.empty [DDC_DATA_PORT]
                                     ++ [INDEX \<mapsto> VInt 2]))]
                  (set_inv ''wbfrq'' [INDEX \<mapsto> VInt 2, DDC_FREQUENCY_OFFSET \<mapsto> VFloat 0])"
      and doC = "cmd_send (mock_env [''frq'', ''wbfrq''] None) (Some 0)
                  [(Some 0, set_inv ''wbdp'' (dictUpdate Map.empty demo_ddc_conf Map.empty [DDC_DATA_PORT]
                                     ++ [INDEX \<mapsto> VInt 2])),
                   (Some 0, set_inv ''wbfrq'' [INDEX \<mapsto> VInt 2, DDC_FREQUENCY_OFFSET \<mapsto> VFloat 0])]
                  (set_inv ''wbddc'' (dictUpdate Map.empty demo_ddc_conf
                                      [DDC_DATA_PORT \<mapsto> VInt 2] ddc_cfg_keys ++ [INDEX \<mapsto> VInt 2]))"]
  by (auto simp add: demo_tuner_conf_def demo_ddc_conf_def component_init_def py_float_def
      dict_get_def adjustFrequency_demo adjustAttenuation_demo adjustFrequency_zero_range
      ok_def set_inv_def idx_INDEX_def ddc_cfg_keys_def dictUpdate_def diag_failed_def)

text \<open>
  Claim C7: the tuner of class \<^verbatim>\<open>_tuner\<close> (frequency range [20e6, 3e9], resolution and
  units 1e6, attenuation range [0, 30], resolution 1), asked for frequency 2450000001
  and attenuation 31.4, both commands succeeding, mirrors frequency 2450000000 and
  attenuation 30. The same holds through the public \<^verbatim>\<open>setConfiguration\<close>.
\<close>

theorem tuner_scenario:
  assumes "ok (cmd_send E (callback s) lg
             (set_inv ''frq'' [INDEX \<mapsto> VInt (index s), TUNER_FREQUENCY \<mapsto> VFloat 2450]))"
    and "ok (cmd_send E (callback s)
             (lg @ [(callback s, set_inv ''frq'' [INDEX \<mapsto> VInt (index s), TUNER_FREQUENCY \<mapsto> VFloat 2450])])
             (set_inv ''att'' [INDEX \<mapsto> VInt (index s), TUNER_ATTENUATION \<mapsto> VFloat 30]))"
  shows "\<exists>s' lg'.
      tuner_setConfiguration E tuner_class
        [TUNER_FREQUENCY \<mapsto> VInt 2450000001, TUNER_ATTENUATION \<mapsto> VFloat (157 / 5)] (s, lg, True)
        = Inr (s', lg', True)
      \<and> setConfiguration (tuner_setConfiguration E tuner_class)
          (validConfigurationKeywords tuner_class)
          [TUNER_FREQUENCY \<mapsto> VInt 2450000001, TUNER_ATTENUATION \<mapsto> VFloat (157 / 5)] (s, lg)
        = Inr (s', lg', True)
      \<and> configuration s' TUNER_FREQUENCY = Some (VFloat 2450000000)
      \<and> configuration s' TUNER_ATTENUATION = Some (VFloat 30)"
proof -
  let ?conf = "[TUNER_FREQUENCY \<mapsto> VInt 2450000001, TUNER_ATTENUATION \<mapsto> VFloat (157 / 5)]"
  let ?filt = "\<lambda>k. if k \<in> set (validConfigurationKeywords tuner_class) then ?conf k else None"
  have same: "?filt = ?conf" by (rule ext) (simp add: tuner_class_def)
  have c: "tpwrCmd tuner_class = Some ''tpwr''" "frqCmd tuner_class = Some ''frq''"
    "attCmd tuner_class = Some ''att''" "agpCmd tuner_class = None" "fifCmd tuner_class = None"
    "tadjCmd tuner_class = None" "frqRange tuner_class = (20000000, 3000000000)"
    "frqRes tuner_class = 1000000" "frqUnits tuner_class = 1000000"
    "attRange tuner_class = (0, 30)" "attRes tuner_class = 1"
    by (simp_all add: tuner_class_def)
  have f: "set_frq E tuner_class INDEX TUNER_FREQUENCY ?conf (s, lg, True) = 
     Inr (conf_set TUNER_FREQUENCY (VFloat 2450000000)
            (addLastCommandErrorInfo (set_inv ''frq'' [INDEX \<mapsto> VInt (index s), TUNER_FREQUENCY \<mapsto> VFloat 2450])
               (Some (cmd_send E (callback s) lg (set_inv ''frq'' [INDEX \<mapsto> VInt (index s), TUNER_FREQUENCY \<mapsto> VFloat 2450]))) s),
          lg @ [(callback s, set_inv ''frq'' [INDEX \<mapsto> VInt (index s), TUNER_FREQUENCY \<mapsto> VFloat 2450])], True)"
    using assms(1)
    by (subst set_frq_run[where v = "VInt 2450000001" and c = "''frq''" and f = 2450000001 and fa = 2450])
       (simp_all add: c py_float_def adjustFrequency_scenario)
  show ?thesis
    unfolding setConfiguration_def same
    using assms(2)
    apply (simp add: tuner_setConfiguration_def set_plain_skip c f)
    apply (subst tuner_set_att_run[where c = "''att''" and f = "157 / 5" and fa = 30])
    apply (simp_all add: c dict_get_def py_float_def adjustAttenuation_scenario set_plain_skip)
    done
qed

theorem tuner_scenario_witness:
  "ok (cmd_send (mock_env [] None) (Some 0) []
         (set_inv ''frq'' [INDEX \<mapsto> VInt 1, TUNER_FREQUENCY \<mapsto> VFloat 2450]))
   \<and> ok (cmd_send (mock_env [] None) (Some 0)
         [(Some 0, set_inv ''frq'' [INDEX \<mapsto> VInt 1, TUNER_FREQUENCY \<mapsto> VFloat 2450])]
         (set_inv ''att'' [INDEX \<mapsto> VInt 1, TUNER_ATTENUATION \<mapsto> VFloat 30]))
   \<and> (\<exists>s' lg'.
        tuner_setConfiguration (mock_env [] None) tuner_class
          [TUNER_FREQUENCY \<mapsto> VInt 2450000001, TUNER_ATTENUATION \<mapsto> VFloat (157 / 5)]
          (component_init (Some 0) 1, [], True) = Inr (s', lg', True)
        \<and> configuration s' TUNER_FREQUENCY = Some (VFloat 2450000000)
        \<and> configuration s' TUNER_ATTENUATION = Some (VFloat 30))"
  using tuner_scenario[where E = "mock_env [] None" and s = "component_init (Some 0) 1"
      and lg = "[]"]
  by (auto simp add: ok_def component_init_def)

section \<open>The DUC's snapshot wirings\<close>

lemma set_group_shape:
  "\<exists>s1 pre d ret1. set_group E cmdCls idx keys confDict (s, lg, ret) = Inr (s1, lg @ pre, ret1)
      \<and> callback s1 = callback s \<and> index s1 = index s
      \<and> cmdErrorInfo s1 = cmdErrorInfo s @ d \<and> length pre \<le> 1"
proof (cases "list_ex (\<lambda>q. confDict q \<noteq> None) keys \<and> cmdCls \<noteq> None")
  case True
  then obtain c where c: "cmdCls = Some c" by auto
  show ?thesis
    using True
    by (subst set_group_run[where c = c, OF _ c refl refl]) auto
next
  case False
  then have "set_group E cmdCls idx keys confDict (s, lg, ret) = Inr (s, lg, ret)"
    by (intro set_group_skip) auto
  then show ?thesis by simp
qed

lemma duc_set_load_run:
  assumes "snapshotLoadCmd cls = Some l"
    and "confDict DUC_FILENAME = Some fname" and "confDict DUC_START_SAMPLE = Some ss"
    and "confDict DUC_SAMPLES = Some sm"
    and "cmd = set_inv l [DUC_FILENAME \<mapsto> fname, DUC_INDEX \<mapsto> VInt (index s),
                          DUC_START_SAMPLE \<mapsto> ss, DUC_SAMPLES \<mapsto> sm]"
  shows "duc_set_load E cls confDict (s, lg, ret) =
     Inr (addLastCommandErrorInfo cmd (Some (cmd_send E (callback s) lg cmd)) s,
          lg @ [(callback s, cmd)], ret \<and> ok (cmd_send E (callback s) lg cmd))"
  using assms by (simp add: duc_set_load_def dict_item_def issue_eq)

lemma duc_set_load_skip:
  "confDict DUC_FILENAME = None \<or> confDict DUC_START_SAMPLE = None \<or> confDict DUC_SAMPLES = None
     \<or> snapshotLoadCmd cls = None
   \<Longrightarrow> duc_set_load E cls confDict st = Inr st"
  by (cases st) (auto simp: duc_set_load_def split: option.splits)

lemma duc_set_tx_run:
  assumes "snapshotTxCmd cls = Some t"
    and "confDict DUC_START_SAMPLE = Some ss" and "confDict DUC_SAMPLES = Some sm"
    and "confDict DUC_SINGLE_PLAYBACK = Some sp"
    and "cmd = set_inv t (dictUpdate Map.empty confDict (configuration s)
                            [DUC_START_SAMPLE, DUC_SAMPLES, DUC_SINGLE_PLAYBACK]
                          ++ [DUC_INDEX \<mapsto> VInt (index s), DUC_START_SAMPLE \<mapsto> ss,
                              DUC_SAMPLES \<mapsto> sm, DUC_SINGLE_PLAYBACK \<mapsto> sp])"
  shows "duc_set_tx E cls confDict (s, lg, ret) =
     Inr (addLastCommandErrorInfo cmd (Some (cmd_send E (callback s) lg cmd)) s,
          lg @ [(callback s, cmd)], ret \<and> ok (cmd_send E (callback s) lg cmd))"
  using assms by (simp add: duc_set_tx_def dict_item_def issue_eq Let_def)

lemma duc_set_tx_KeyError:
  assumes "snapshotTxCmd cls = Some t"
    and "confDict DUC_SINGLE_PLAYBACK \<noteq> None"
    and "confDict DUC_START_SAMPLE = None \<or> confDict DUC_SAMPLES = None"
  shows "duc_set_tx E cls confDict (s, lg, ret) =
     Inl (KeyError (if confDict DUC_START_SAMPLE = None then DUC_START_SAMPLE else DUC_SAMPLES))"
  using assms by (auto simp: duc_set_tx_def dict_item_def)

lemma demo_duc_class_sel [simp]:
  "snapshotLoadCmd demo_duc_class = Some ''lsnap''"
  "snapshotTxCmd demo_duc_class = Some ''txsnap''"
  "cfgCmd demo_duc_class = Some ''duc''"
  by (simp_all add: demo_duc_class_def duc_class_def)

text \<open>
  Claim C5: for a DUC with both snapshot commands and a request that holds the file
  name, the start sample, the number of samples and the single-playback flag, the call
  returns, and the load-snapshot command is sent, and its outcome recorded, before the
  transmit-snapshot command is sent: the two are the last two entries of the call log,
  in this order, after at most one command (the configuration command), and the
  transmit command is answered on a history that holds the load command.
\<close>

theorem duc_load_before_transmit:
  assumes "snapshotLoadCmd cls = Some l" and "snapshotTxCmd cls = Some t"
    and "confDict DUC_FILENAME = Some fname" and "confDict DUC_START_SAMPLE = Some ss"
    and "confDict DUC_SAMPLES = Some sm" and "confDict DUC_SINGLE_PLAYBACK = Some sp"
    and "load = set_inv l [DUC_FILENAME \<mapsto> fname, DUC_INDEX \<mapsto> VInt (index s),
                           DUC_START_SAMPLE \<mapsto> ss, DUC_SAMPLES \<mapsto> sm]"
  shows "\<exists>s' pre d args ret.
      duc_setConfiguration E cls confDict (s, lg, True)
        = Inr (s', lg @ pre @ [(callback s, load), (callback s, set_inv t args)], ret)
      \<and> length pre \<le> 1
      \<and> args DUC_INDEX = Some (VInt (index s)) \<and> args DUC_START_SAMPLE = Some ss
      \<and> args DUC_SAMPLES = Some sm \<and> args DUC_SINGLE_PLAYBACK = Some sp
      \<and> cmdErrorInfo s' = cmdErrorInfo s @ d
          @ [(load, Some (cmd_send E (callback s) (lg @ pre) load)),
             (set_inv t args,
              Some (cmd_send E (callback s) (lg @ pre @ [(callback s, load)]) (set_inv t args)))]"
proof -
  obtain s1 pre d ret1 where
    g: "set_group E (cfgCmd cls) idx_DUC duc_cfg_keys confDict (s, lg, True) = Inr (s1, lg @ pre, ret1)"
    and cb: "callback s1 = callback s" and ix: "index s1 = index s"
    and ei: "cmdErrorInfo s1 = cmdErrorInfo s @ d" and len: "length pre \<le> 1"
    using set_group_shape[of E "cfgCmd cls" idx_DUC duc_cfg_keys confDict s lg True] by blast
  define args where "args = dictUpdate Map.empty confDict (configuration s1)
                            [DUC_START_SAMPLE, DUC_SAMPLES, DUC_SINGLE_PLAYBACK]
                          ++ [DUC_INDEX \<mapsto> VInt (index s), DUC_START_SAMPLE \<mapsto> ss,
                              DUC_SAMPLES \<mapsto> sm, DUC_SINGLE_PLAYBACK \<mapsto> sp]"
  have l: "duc_set_load E cls confDict (s1, lg @ pre, ret1) =
     Inr (addLastCommandErrorInfo load (Some (cmd_send E (callback s) (lg @ pre) load)) s1,
          lg @ pre @ [(callback s, load)], ret1 \<and> ok (cmd_send E (callback s) (lg @ pre) load))"
    using duc_set_load_run[OF assms(1,3,4,5), of load s1 E "lg @ pre" ret1]
    by (simp add: assms(7) cb ix)
  have t: "duc_set_tx E cls confDict
             (addLastCommandErrorInfo load (Some (cmd_send E (callback s) (lg @ pre) load)) s1,
              lg @ pre @ [(callback s, load)], ret1 \<and> ok (cmd_send E (callback s) (lg @ pre) load)) =
     Inr (addLastCommandErrorInfo (set_inv t args)
            (Some (cmd_send E (callback s) (lg @ pre @ [(callback s, load)]) (set_inv t args)))
            (addLastCommandErrorInfo load (Some (cmd_send E (callback s) (lg @ pre) load)) s1),
          lg @ pre @ [(callback s, load), (callback s, set_inv t args)],
          (ret1 \<and> ok (cmd_send E (callback s) (lg @ pre) load))
           \<and> ok (cmd_send E (callback s) (lg @ pre @ [(callback s, load)]) (set_inv t args)))"
    by (subst duc_set_tx_run[OF assms(2,4,5,6), where cmd = "set_inv t args"])
       (simp_all add: args_def cb ix)
  have a: "args DUC_INDEX = Some (VInt (index s))" "args DUC_START_SAMPLE = Some ss"
    "args DUC_SAMPLES = Some sm" "args DUC_SINGLE_PLAYBACK = Some sp"
    by (simp_all add: args_def)
  show ?thesis
    apply (rule exI[of _ "addLastCommandErrorInfo (set_inv t args)
            (Some (cmd_send E (callback s) (lg @ pre @ [(callback s, load)]) (set_inv t args)))
            (addLastCommandErrorInfo load (Some (cmd_send E (callback s) (lg @ pre) load)) s1)"])
    apply (rule exI[of _ pre], rule exI[of _ d], rule exI[of _ args])
    apply (rule exI[of _ "(ret1 \<and> ok (cmd_send E (callback s) (lg @ pre) load))
           \<and> ok (cmd_send E (callback s) (lg @ pre @ [(callback s, load)]) (set_inv t args))"])
    using len apply (simp add: duc_setConfiguration_def g l t a ei)
    done
qed

theorem duc_load_before_transmit_witness:
  "\<exists>s' pre args ret.
      duc_setConfiguration (mock_env [] None) demo_duc_class demo_snapshot_conf
        (component_init (Some 0) 1, [], True)
        = Inr (s', pre @ [(Some 0, set_inv ''lsnap''
                             [DUC_FILENAME \<mapsto> VStr ''wave.dat'', DUC_INDEX \<mapsto> VInt 1,
                              DUC_START_SAMPLE \<mapsto> VInt 0, DUC_SAMPLES \<mapsto> VInt 1024]),
                          (Some 0, set_inv ''txsnap'' args)], ret)
      \<and> length pre \<le> 1
      \<and> args DUC_START_SAMPLE = Some (VInt 0) \<and> args DUC_SAMPLES = Some (VInt 1024)
      \<and> args DUC_SINGLE_PLAYBACK = Some (VInt 1)"
  using duc_load_before_transmit[where E = "mock_env [] None" and cls = demo_duc_class
      and confDict = demo_snapshot_conf and s = "component_init (Some 0) 1" and lg = "[]"
      and l = "''lsnap''" and t = "''txsnap''" and fname = "VStr ''wave.dat''"
      and ss = "VInt 0" and sm = "VInt 1024" and sp = "VInt 1"
      and load = "set_inv ''lsnap''
                             [DUC_FILENAME \<mapsto> VStr ''wave.dat'', DUC_INDEX \<mapsto> VInt 1,
                              DUC_START_SAMPLE \<mapsto> VInt 0, DUC_SAMPLES \<mapsto> VInt 1024]"]
  by (simp add: demo_snapshot_conf_def component_init_def) blast

text \<open>
  Claim C10: for a DUC with a transmit-snapshot command, a request that holds the
  single-playback key but not the start-sample key or not the samples key raises
  KeyError, for the first of the two that is missing: the transmit block is entered on
  any one of its three keys and then reads all three with \<^verbatim>\<open>confDict[key]\<close>.
\<close>

theorem duc_partial_transmit_keys_KeyError:
  assumes "snapshotTxCmd cls = Some t"
    and "confDict DUC_SINGLE_PLAYBACK \<noteq> None"
    and "confDict DUC_START_SAMPLE = None \<or> confDict DUC_SAMPLES = None"
  shows "duc_setConfiguration E cls confDict (s, lg, True) =
     Inl (KeyError (if confDict DUC_START_SAMPLE = None then DUC_START_SAMPLE else DUC_SAMPLES))"
proof -
  obtain s1 pre ret1 where
    g: "set_group E (cfgCmd cls) idx_DUC duc_cfg_keys confDict (s, lg, True) = Inr (s1, lg @ pre, ret1)"
    using set_group_shape[of E "cfgCmd cls" idx_DUC duc_cfg_keys confDict s lg True] by blast
  have l: "duc_set_load E cls confDict (s1, lg @ pre, ret1) = Inr (s1, lg @ pre, ret1)"
    using assms(3) by (intro duc_set_load_skip) auto
  show ?thesis
    by (simp add: duc_setConfiguration_def g l duc_set_tx_KeyError[OF assms])
qed

theorem duc_partial_transmit_keys_KeyError_witness:
  "duc_setConfiguration (mock_env [] None) demo_duc_class [DUC_SINGLE_PLAYBACK \<mapsto> VInt 1]
     (component_init (Some 0) 1, [], True) = Inl (KeyError DUC_START_SAMPLE)"
  using duc_partial_transmit_keys_KeyError[where E = "mock_env [] None"
      and cls = demo_duc_class and confDict = "[DUC_SINGLE_PLAYBACK \<mapsto> VInt 1]"
      and s = "component_init (Some 0) 1" and lg = "[]" and t = "''txsnap''"]
  by simp

section \<open>Querying the configuration\<close>

lemma hook_sel [simp]:
  "callback (fst (Configurable_queryConfiguration E (s, lg))) = callback s"
  "index (fst (Configurable_queryConfiguration E (s, lg))) = index s"
  "transport (fst (Configurable_queryConfiguration E (s, lg))) = transport s"
  "snd (Configurable_queryConfiguration E (s, lg)) = lg"
  by (simp_all add: Configurable_queryConfiguration_def split: prod.splits)

lemma query_keys_frame:
  "callback (fst (query_keys E cc idx flds (s, lg))) = callback s
   \<and> index (fst (query_keys E cc idx flds (s, lg))) = index s
   \<and> transport (fst (query_keys E cc idx flds (s, lg))) = transport s"
proof -
  have f: "\<And>r t. callback (fold (\<lambda>(k, src, dflt). conf_set k (dict_get r src dflt)) flds t) = callback t
      \<and> index (fold (\<lambda>(k, src, dflt). conf_set k (dict_get r src dflt)) flds t) = index t
      \<and> transport (fold (\<lambda>(k, src, dflt). conf_set k (dict_get r src dflt)) flds t) = transport t"
    by (induction flds) (auto split: prod.splits)
  show ?thesis
    by (auto simp: query_keys_def ask_def send_def f split: option.splits prod.splits)
qed

lemma query_keys_other:
  assumes "k \<notin> fst ` set flds"
  shows "configuration (fst (query_keys E cc idx flds (s, lg))) k = configuration s k"
proof -
  have f: "\<And>r t. configuration (fold (\<lambda>(k, src, dflt). conf_set k (dict_get r src dflt)) flds t) k
             = configuration t k"
    using assms by (induction flds) (auto split: prod.splits)
  show ?thesis
    by (auto simp: query_keys_def ask_def send_def f split: option.splits prod.splits)
qed

lemma query_keys_log:
  "snd (query_keys E cc idx flds (s, lg)) =
     lg @ (case cc of None \<Rightarrow> [] | Some c \<Rightarrow> [(callback s, query_inv c (idx s))])"
  by (auto simp: query_keys_def ask_def send_def split: option.splits prod.splits)

lemma query_keys_log':
  assumes "query_keys E cc idx flds (s, lg) = (s', lg')"
  shows "lg' = lg @ (case cc of None \<Rightarrow> [] | Some c \<Rightarrow> [(callback s, query_inv c (idx s))])"
  using query_keys_log[of E cc idx flds s lg] assms by simp

lemma query_keys_sent:
  assumes "query_keys E cc idx flds (s, lg) = (s', lg')" and "idx s = [INDEX \<mapsto> VInt (index s)]"
  shows "lg' = lg @ sent_query (callback s) cc (index s)"
  using query_keys_log'[OF assms(1)] assms(2) by (cases cc) (simp_all add: sent_query_def)

lemma query_frq_sent:
  assumes "query_frq E cls idx k (s, lg) = Inr (s', lg')"
    and "idx s = [INDEX \<mapsto> VInt (index s)]"
  shows "lg' = lg @ sent_query (callback s) (frqCmd cls) (index s)"
  using assms
  by (auto simp: query_frq_def ask_def send_def thenE_def sent_query_def
      split: option.splits prod.splits pyval.splits sum.splits)

lemma query_keys_absent:
  assumes "cc = Some c" and "idx s = [INDEX \<mapsto> VInt (index s)]"
    and "lacks_field E (callback s) lg c (index s) src"
    and "flds = pre @ [(k, src, dflt)] @ post" and "k \<notin> fst ` set post"
  shows "configuration (fst (query_keys E cc idx flds (s, lg))) k = Some dflt"
proof -
  obtain r where r: "out_rspInfo (cmd_send E (callback s) lg (query_inv c [INDEX \<mapsto> VInt (index s)])) = Some r"
    and a: "r src = None"
    using assms(3) unfolding lacks_field_def by (auto split: option.splits)
  have f: "\<And>t. configuration (fold (\<lambda>(k, src, dflt). conf_set k (dict_get r src dflt)) post t) k
             = configuration t k"
    using assms(5) by (induction post) (auto split: prod.splits)
  have g: "dict_get r src dflt = dflt" using a by (simp add: dict_get_def)
  show ?thesis
    using r by (simp add: query_keys_def ask_def send_def assms(1,2,4) f g)
qed

lemma query_frq_frame:
  assumes "query_frq E cls idx k (s, lg) = Inr (s', lg')"
  shows "callback s' = callback s \<and> index s' = index s \<and> transport s' = transport s
         \<and> (\<forall>k'. k' \<noteq> k \<longrightarrow> configuration s' k' = configuration s k')"
  using assms
  by (auto simp: query_frq_def ask_def send_def thenE_def
      split: option.splits prod.splits pyval.splits sum.splits)

lemma query_frq_absent:
  assumes "frqCmd cls = Some c" and "idx s = [INDEX \<mapsto> VInt (index s)]"
    and "lacks_field E (callback s) lg c (index s) k"
  shows "\<exists>s' lg'. query_frq E cls idx k (s, lg) = Inr (s', lg') \<and> configuration s' k = Some VNone"
proof -
  obtain r where r: "out_rspInfo (cmd_send E (callback s) lg (query_inv c [INDEX \<mapsto> VInt (index s)])) = Some r"
    and a: "r k = None"
    using assms(3) unfolding lacks_field_def by (auto split: option.splits)
  show ?thesis
    using r a by (simp add: query_frq_def ask_def send_def assms(1,2) dict_get_def)
qed

lemma idx_INDEX_eq: "idx_INDEX s = [INDEX \<mapsto> VInt (index s)]"
  by (simp add: idx_INDEX_def)

lemma tuner_query_steps:
  assumes "tuner_queryConfiguration E cls (s, lg) = Inr (s', lg')"
  obtains s0 l0 s1 l1 s2 l2 s3 l3 where
    "Configurable_queryConfiguration E (s, lg) = (s0, l0)"
    "query_keys E (tpwrCmd cls) idx_INDEX [(ENABLE, ENABLE, VInt 0)] (s0, l0) = (s1, l1)"
    "query_frq E cls idx_INDEX TUNER_FREQUENCY (s1, l1) = Inr (s2, l2)"
    "query_keys E (attCmd cls) idx_INDEX
       [(TUNER_ATTENUATION, TUNER_ATTENUATION, VNone),
        (TUNER_RF_ATTENUATION, TUNER_ATTENUATION, VNone)] (s2, l2) = (s3, l3)"
    "query_keys E (tadjCmd cls) idx_INDEX [(TUNER_TIMING_ADJ, TUNER_TIMING_ADJ, VNone)]
       (query_keys E (fifCmd cls) idx_INDEX [(TUNER_FILTER, TUNER_FILTER, VNone)]
          (query_keys E (agpCmd cls) idx_INDEX [(TUNER_AGP, TUNER_AGP, VNone)] (s3, l3)))
      = (s', lg')"
proof -
  obtain s0 l0 where a: "Configurable_queryConfiguration E (s, lg) = (s0, l0)" by force
  obtain s1 l1 where b:
    "query_keys E (tpwrCmd cls) idx_INDEX [(ENABLE, ENABLE, VInt 0)] (s0, l0) = (s1, l1)" by force
  obtain s2 l2 where c: "query_frq E cls idx_INDEX TUNER_FREQUENCY (s1, l1) = Inr (s2, l2)"
    using assms by (cases "query_frq E cls idx_INDEX TUNER_FREQUENCY (s1, l1)")
      (auto simp: tuner_queryConfiguration_def Let_def a b)
  obtain s3 l3 where d: "query_keys E (attCmd cls) idx_INDEX
       [(TUNER_ATTENUATION, TUNER_ATTENUATION, VNone),
        (TUNER_RF_ATTENUATION, TUNER_ATTENUATION, VNone)] (s2, l2) = (s3, l3)" by force
  have e: "query_keys E (tadjCmd cls) idx_INDEX [(TUNER_TIMING_ADJ, TUNER_TIMING_ADJ, VNone)]
       (query_keys E (fifCmd cls) idx_INDEX [(TUNER_FILTER, TUNER_FILTER, VNone)]
          (query_keys E (agpCmd cls) idx_INDEX [(TUNER_AGP, TUNER_AGP, VNone)] (s3, l3)))
      = (s', lg')"
    using assms by (simp add: tuner_queryConfiguration_def Let_def a b c d)
  show ?thesis using that[OF a b c d e] .
qed

lemma query_keys_other':
  assumes "query_keys E cc idx flds (s, lg) = (s', lg')" and "k \<notin> fst ` set flds"
  shows "configuration s' k = configuration s k"
  using query_keys_other[OF assms(2), of E cc idx s lg] assms(1) by simp

lemma query_keys_frame':
  assumes "query_keys E cc idx flds (s, lg) = (s', lg')"
  shows "callback s' = callback s" "index s' = index s" "transport s' = transport s"
  using query_keys_frame[of E cc idx flds s lg] assms by simp_all

lemma tuner_query_tail:
  assumes "query_keys E (tadjCmd cls) idx_INDEX [(TUNER_TIMING_ADJ, TUNER_TIMING_ADJ, VNone)]
       (query_keys E (fifCmd cls) idx_INDEX [(TUNER_FILTER, TUNER_FILTER, VNone)]
          (query_keys E (agpCmd cls) idx_INDEX [(TUNER_AGP, TUNER_AGP, VNone)] (s3, l3)))
      = (s', lg')"
    and "k \<noteq> TUNER_TIMING_ADJ" "k \<noteq> TUNER_FILTER" "k \<noteq> TUNER_AGP"
  shows "configuration s' k = configuration s3 k"
proof -
  obtain s4 l4 where a:
    "query_keys E (agpCmd cls) idx_INDEX [(TUNER_AGP, TUNER_AGP, VNone)] (s3, l3) = (s4, l4)"
    by force
  obtain s5 l5 where b:
    "query_keys E (fifCmd cls) idx_INDEX [(TUNER_FILTER, TUNER_FILTER, VNone)] (s4, l4) = (s5, l5)"
    by force
  have c: "query_keys E (tadjCmd cls) idx_INDEX [(TUNER_TIMING_ADJ, TUNER_TIMING_ADJ, VNone)]
             (s5, l5) = (s', lg')"
    using assms(1) by (simp add: a b)
  show ?thesis
    using query_keys_other'[OF a, of k] query_keys_other'[OF b, of k] query_keys_other'[OF c, of k]
      assms(2-4) by simp
qed

lemma tuner_query_entries:
  assumes R: "tuner_queryConfiguration E cls (s, lg) = Inr (s', lg')"
  shows "tpwrCmd cls = Some c \<Longrightarrow> lacks_field E (callback s) lg c (index s) ENABLE
           \<Longrightarrow> configuration s' ENABLE = Some (VInt 0)"
    and "frqCmd cls = Some c
           \<Longrightarrow> lacks_field E (callback s)
                 (lg @ sent_query (callback s) (tpwrCmd cls) (index s)) c (index s) TUNER_FREQUENCY
           \<Longrightarrow> configuration s' TUNER_FREQUENCY = Some VNone"
    and "attCmd cls = Some c
           \<Longrightarrow> lacks_field E (callback s)
                 (lg @ sent_query (callback s) (tpwrCmd cls) (index s)
                     @ sent_query (callback s) (frqCmd cls) (index s)) c (index s) TUNER_ATTENUATION
           \<Longrightarrow> configuration s' TUNER_ATTENUATION = Some VNone
               \<and> configuration s' TUNER_RF_ATTENUATION = Some VNone"
proof -
  from R obtain s0 l0 s1 l1 s2 l2 s3 l3 where
    a: "Configurable_queryConfiguration E (s, lg) = (s0, l0)" and
    b: "query_keys E (tpwrCmd cls) idx_INDEX [(ENABLE, ENABLE, VInt 0)] (s0, l0) = (s1, l1)" and
    c: "query_frq E cls idx_INDEX TUNER_FREQUENCY (s1, l1) = Inr (s2, l2)" and
    d: "query_keys E (attCmd cls) idx_INDEX
       [(TUNER_ATTENUATION, TUNER_ATTENUATION, VNone),
        (TUNER_RF_ATTENUATION, TUNER_ATTENUATION, VNone)] (s2, l2) = (s3, l3)" and
    e: "query_keys E (tadjCmd cls) idx_INDEX [(TUNER_TIMING_ADJ, TUNER_TIMING_ADJ, VNone)]
       (query_keys E (fifCmd cls) idx_INDEX [(TUNER_FILTER, TUNER_FILTER, VNone)]
          (query_keys E (agpCmd cls) idx_INDEX [(TUNER_AGP, TUNER_AGP, VNone)] (s3, l3)))
      = (s', lg')"
    by (rule tuner_query_steps)
  have f0: "callback s0 = callback s" "index s0 = index s" "l0 = lg"
    using hook_sel[of E s lg] a by simp_all
  have f1: "callback s1 = callback s" "index s1 = index s"
    using query_keys_frame'[OF b] f0 by simp_all
  have g1: "l1 = lg @ sent_query (callback s) (tpwrCmd cls) (index s)"
    using query_keys_sent[OF b idx_INDEX_eq] f0 by simp
  have f2: "callback s2 = callback s" "index s2 = index s"
    and o2: "\<And>k. k \<noteq> TUNER_FREQUENCY \<Longrightarrow> configuration s2 k = configuration s1 k"
    using query_frq_frame[OF c] f1 by simp_all
  have g2: "l2 = lg @ sent_query (callback s) (tpwrCmd cls) (index s)
                   @ sent_query (callback s) (frqCmd cls) (index s)"
    using query_frq_sent[OF c idx_INDEX_eq] f1 g1 by simp
  {
    assume h: "tpwrCmd cls = Some c" "lacks_field E (callback s) lg c (index s) ENABLE"
    have "configuration s1 ENABLE = Some (VInt 0)"
      using query_keys_absent[where E = E and cc = "tpwrCmd cls" and c = c and idx = idx_INDEX
          and s = s0 and lg = l0 and src = ENABLE and k = ENABLE and dflt = "VInt 0"
          and pre = "[]" and post = "[]" and flds = "[(ENABLE, ENABLE, VInt 0)]"]
        h b f0 by (simp add: idx_INDEX_eq)
    then have "configuration s3 ENABLE = Some (VInt 0)"
      using o2[of ENABLE] query_keys_other'[OF d, of ENABLE] by simp
    then show "configuration s' ENABLE = Some (VInt 0)"
      using tuner_query_tail[OF e, of ENABLE] by simp
  }
  {
    assume h: "frqCmd cls = Some c"
      "lacks_field E (callback s)
         (lg @ sent_query (callback s) (tpwrCmd cls) (index s)) c (index s) TUNER_FREQUENCY"
    have "configuration s2 TUNER_FREQUENCY = Some VNone"
      using query_frq_absent[where E = E and cls = cls and c = c and idx = idx_INDEX
          and s = s1 and lg = l1 and k = TUNER_FREQUENCY] h c f1 g1 by (simp add: idx_INDEX_eq)
    then have "configuration s3 TUNER_FREQUENCY = Some VNone"
      using query_keys_other'[OF d, of TUNER_FREQUENCY] by simp
    then show "configuration s' TUNER_FREQUENCY = Some VNone"
      using tuner_query_tail[OF e, of TUNER_FREQUENCY] by simp
  }
  {
    assume h: "attCmd cls = Some c"
      "lacks_field E (callback s)
         (lg @ sent_query (callback s) (tpwrCmd cls) (index s)
             @ sent_query (callback s) (frqCmd cls) (index s)) c (index s) TUNER_ATTENUATION"
    have 1: "configuration s3 TUNER_ATTENUATION = Some VNone"
      using query_keys_absent[where E = E and cc = "attCmd cls" and c = c and idx = idx_INDEX
          and s = s2 and lg = l2 and src = TUNER_ATTENUATION and k = TUNER_ATTENUATION
          and dflt = VNone and pre = "[]"
          and post = "[(TUNER_RF_ATTENUATION, TUNER_ATTENUATION, VNone)]"
          and flds = "[(TUNER_ATTENUATION, TUNER_ATTENUATION, VNone),
                       (TUNER_RF_ATTENUATION, TUNER_ATTENUATION, VNone)]"]
        h d f2 g2 by (simp add: idx_INDEX_eq)
    have 2: "configuration s3 TUNER_RF_ATTENUATION = Some VNone"
      using query_keys_absent[where E = E and cc = "attCmd cls" and c = c and idx = idx_INDEX
          and s = s2 and lg = l2 and src = TUNER_ATTENUATION and k = TUNER_RF_ATTENUATION
          and dflt = VNone and pre = "[(TUNER_ATTENUATION, TUNER_ATTENUATION, VNone)]"
          and post = "[]"
          and flds = "[(TUNER_ATTENUATION, TUNER_ATTENUATION, VNone),
                       (TUNER_RF_ATTENUATION, TUNER_ATTENUATION, VNone)]"]
        h d f2 g2 by (simp add: idx_INDEX_eq)
    show "configuration s' TUNER_ATTENUATION = Some VNone
               \<and> configuration s' TUNER_RF_ATTENUATION = Some VNone"
      using 1 2 tuner_query_tail[OF e, of TUNER_ATTENUATION]
        tuner_query_tail[OF e, of TUNER_RF_ATTENUATION] by simp
  }
qed

lemma tuner_query_returns:
  assumes "frqCmd cls = Some c"
    and "lacks_field E (callback s)
           (lg @ sent_query (callback s) (tpwrCmd cls) (index s)) c (index s) TUNER_FREQUENCY"
  shows "\<exists>s' lg'. tuner_queryConfiguration E cls (s, lg) = Inr (s', lg')"
proof -
  obtain s0 l0 where a: "Configurable_queryConfiguration E (s, lg) = (s0, l0)" by force
  obtain s1 l1 where b:
    "query_keys E (tpwrCmd cls) idx_INDEX [(ENABLE, ENABLE, VInt 0)] (s0, l0) = (s1, l1)" by force
  have f0: "callback s0 = callback s" "index s0 = index s" "l0 = lg"
    using hook_sel[of E s lg] a by simp_all
  have f1: "callback s1 = callback s" "index s1 = index s"
    using query_keys_frame'[OF b] f0 by simp_all
  have g1: "l1 = lg @ sent_query (callback s) (tpwrCmd cls) (index s)"
    using query_keys_sent[OF b idx_INDEX_eq] f0 by simp
  obtain s2 l2 where c: "query_frq E cls idx_INDEX TUNER_FREQUENCY (s1, l1) = Inr (s2, l2)"
    using query_frq_absent[where E = E and cls = cls and c = c and idx = idx_INDEX
          and s = s1 and lg = l1 and k = TUNER_FREQUENCY] assms f1 g1
    by (auto simp: idx_INDEX_eq)
  show ?thesis
    by (simp add: tuner_queryConfiguration_def Let_def a b c split: prod.splits)
qed

lemma ddc_query_steps:
  assumes "ddc_queryConfiguration E cls (s, lg) = Inr (s', lg')"
  obtains s0 l0 s1 l1 s2 l2 where
    "Configurable_queryConfiguration E (s, lg) = (s0, l0)"
    "query_frq E cls idx_INDEX DDC_FREQUENCY_OFFSET (s0, l0) = Inr (s1, l1)"
    "query_keys E (cfgCmd cls) idx_INDEX
       [(DDC_RATE_INDEX, DDC_RATE_INDEX, VNone),
        (DDC_UDP_DESTINATION, DDC_UDP_DESTINATION, VNone),
        (ENABLE, ENABLE, VNone),
        (DDC_VITA_ENABLE, DDC_VITA_ENABLE, VNone),
        (DDC_STREAM_ID, DDC_STREAM_ID, VNone)] (s1, l1) = (s2, l2)"
    "query_keys E (dportCmd cls) idx_INDEX [(DDC_DATA_PORT, DDC_DATA_PORT, VNone)] (s2, l2)
      = (s', lg')"
proof -
  obtain s0 l0 where a: "Configurable_queryConfiguration E (s, lg) = (s0, l0)" by force
  obtain s1 l1 where b: "query_frq E cls idx_INDEX DDC_FREQUENCY_OFFSET (s0, l0) = Inr (s1, l1)"
    using assms by (cases "query_frq E cls idx_INDEX DDC_FREQUENCY_OFFSET (s0, l0)")
      (auto simp: ddc_queryConfiguration_def Let_def a)
  obtain s2 l2 where c: "query_keys E (cfgCmd cls) idx_INDEX
       [(DDC_RATE_INDEX, DDC_RATE_INDEX, VNone),
        (DDC_UDP_DESTINATION, DDC_UDP_DESTINATION, VNone),
        (ENABLE, ENABLE, VNone),
        (DDC_VITA_ENABLE, DDC_VITA_ENABLE, VNone),
        (DDC_STREAM_ID, DDC_STREAM_ID, VNone)] (s1, l1) = (s2, l2)" by force
  have d: "query_keys E (dportCmd cls) idx_INDEX [(DDC_DATA_PORT, DDC_DATA_PORT, VNone)] (s2, l2)
      = (s', lg')"
    using assms by (simp add: ddc_queryConfiguration_def Let_def a b c)
  show ?thesis using that[OF a b c d] .
qed

lemma ddc_query_returns:
  assumes "frqCmd cls = Some c"
    and "lacks_field E (callback s) lg c (index s) DDC_FREQUENCY_OFFSET"
  shows "\<exists>s' lg'. ddc_queryConfiguration E cls (s, lg) = Inr (s', lg')"
proof -
  obtain s0 l0 where a: "Configurable_queryConfiguration E (s, lg) = (s0, l0)" by force
  have f0: "callback s0 = callback s" "index s0 = index s" "l0 = lg"
    using hook_sel[of E s lg] a by simp_all
  obtain s1 l1 where b: "query_frq E cls idx_INDEX DDC_FREQUENCY_OFFSET (s0, l0) = Inr (s1, l1)"
    using query_frq_absent[where E = E and cls = cls and c = c and idx = idx_INDEX
          and s = s0 and lg = l0 and k = DDC_FREQUENCY_OFFSET] assms f0
    by (auto simp: idx_INDEX_eq)
  show ?thesis
    by (simp add: ddc_queryConfiguration_def Let_def a b split: prod.splits)
qed

lemma ddc_cfg_absent:
  assumes "cfgCmd cls = Some c" and "k \<in> set ddc_cfg_keys"
    and "lacks_field E (callback s) lg c (index s) k"
  shows "configuration (fst (query_keys E (cfgCmd cls) idx_INDEX
       [(DDC_RATE_INDEX, DDC_RATE_INDEX, VNone),
        (DDC_UDP_DESTINATION, DDC_UDP_DESTINATION, VNone),
        (ENABLE, ENABLE, VNone),
        (DDC_VITA_ENABLE, DDC_VITA_ENABLE, VNone),
        (DDC_STREAM_ID, DDC_STREAM_ID, VNone)] (s, lg))) k = Some VNone"
proof -
  obtain pre post where
    "[(DDC_RATE_INDEX, DDC_RATE_INDEX, VNone),
        (DDC_UDP_DESTINATION, DDC_UDP_DESTINATION, VNone),
        (ENABLE, ENABLE, VNone),
        (DDC_VITA_ENABLE, DDC_VITA_ENABLE, VNone),
        (DDC_STREAM_ID, DDC_STREAM_ID, VNone)] = pre @ [(k, k, VNone)] @ post"
    and "k \<notin> fst ` set post"
  proof -
    consider "k = ENABLE" | "k = DDC_RATE_INDEX" | "k = DDC_UDP_DESTINATION"
      | "k = DDC_VITA_ENABLE" | "k = DDC_STREAM_ID"
      using assms(2) by (auto simp: ddc_cfg_keys_def)
    then show ?thesis
    proof cases
      case 1
      show ?thesis
        by (rule that[of "[(DDC_RATE_INDEX, DDC_RATE_INDEX, VNone),
             (DDC_UDP_DESTINATION, DDC_UDP_DESTINATION, VNone)]"
             "[(DDC_VITA_ENABLE, DDC_VITA_ENABLE, VNone), (DDC_STREAM_ID, DDC_STREAM_ID, VNone)]"])
           (simp_all add: 1)
    next
      case 2
      show ?thesis
        by (rule that[of "[]" "[(DDC_UDP_DESTINATION, DDC_UDP_DESTINATION, VNone),
             (ENABLE, ENABLE, VNone),
             (DDC_VITA_ENABLE, DDC_VITA_ENABLE, VNone), (DDC_STREAM_ID, DDC_STREAM_ID, VNone)]"])
           (simp_all add: 2)
    next
      case 3
      show ?thesis
        by (rule that[of "[(DDC_RATE_INDEX, DDC_RATE_INDEX, VNone)]"
             "[(ENABLE, ENABLE, VNone),
             (DDC_VITA_ENABLE, DDC_VITA_ENABLE, VNone), (DDC_STREAM_ID, DDC_STREAM_ID, VNone)]"])
           (simp_all add: 3)
    next
      case 4
      show ?thesis
        by (rule that[of "[(DDC_RATE_INDEX, DDC_RATE_INDEX, VNone),
             (DDC_UDP_DESTINATION, DDC_UDP_DESTINATION, VNone), (ENABLE, ENABLE, VNone)]"
             "[(DDC_STREAM_ID, DDC_STREAM_ID, VNone)]"])
           (simp_all add: 4)
    next
      case 5
      show ?thesis
        by (rule that[of "[(DDC_RATE_INDEX, DDC_RATE_INDEX, VNone),
             (DDC_UDP_DESTINATION, DDC_UDP_DESTINATION, VNone), (ENABLE, ENABLE, VNone),
             (DDC_VITA_ENABLE, DDC_VITA_ENABLE, VNone)]" "[]"])
           (simp_all add: 5)
    qed
  qed
  then show ?thesis
    using query_keys_absent[where E = E and cc = "cfgCmd cls" and c = c and idx = idx_INDEX
          and s = s and lg = lg and src = k and k = k and dflt = VNone
          and pre = pre and post = post] assms(1,3)
    by (simp add: idx_INDEX_eq)
qed

lemma ddc_query_entries:
  assumes R: "ddc_queryConfiguration E cls (s, lg) = Inr (s', lg')"
  shows "frqCmd cls = Some c \<Longrightarrow> lacks_field E (callback s) lg c (index s) DDC_FREQUENCY_OFFSET
           \<Longrightarrow> configuration s' DDC_FREQUENCY_OFFSET = Some VNone"
    and "cfgCmd cls = Some c \<Longrightarrow> k \<in> set ddc_cfg_keys
           \<Longrightarrow> lacks_field E (callback s)
                 (lg @ sent_query (callback s) (frqCmd cls) (index s)) c (index s) k
           \<Longrightarrow> configuration s' k = Some VNone"
    and "dportCmd cls = Some c
           \<Longrightarrow> lacks_field E (callback s)
                 (lg @ sent_query (callback s) (frqCmd cls) (index s)
                     @ sent_query (callback s) (cfgCmd cls) (index s)) c (index s) DDC_DATA_PORT
           \<Longrightarrow> configuration s' DDC_DATA_PORT = Some VNone"
proof -
  from R obtain s0 l0 s1 l1 s2 l2 where
    a: "Configurable_queryConfiguration E (s, lg) = (s0, l0)" and
    b: "query_frq E cls idx_INDEX DDC_FREQUENCY_OFFSET (s0, l0) = Inr (s1, l1)" and
    c: "query_keys E (cfgCmd cls) idx_INDEX
       [(DDC_RATE_INDEX, DDC_RATE_INDEX, VNone),
        (DDC_UDP_DESTINATION, DDC_UDP_DESTINATION, VNone),
        (ENABLE, ENABLE, VNone),
        (DDC_VITA_ENABLE, DDC_VITA_ENABLE, VNone),
        (DDC_STREAM_ID, DDC_STREAM_ID, VNone)] (s1, l1) = (s2, l2)" and
    d: "query_keys E (dportCmd cls) idx_INDEX [(DDC_DATA_PORT, DDC_DATA_PORT, VNone)] (s2, l2)
      = (s', lg')"
    by (rule ddc_query_steps)
  have f0: "callback s0 = callback s" "index s0 = index s" "l0 = lg"
    using hook_sel[of E s lg] a by simp_all
  have f1: "callback s1 = callback s" "index s1 = index s"
    using query_frq_frame[OF b] f0 by simp_all
  have g1: "l1 = lg @ sent_query (callback s) (frqCmd cls) (index s)"
    using query_frq_sent[OF b idx_INDEX_eq] f0 by simp
  have f2: "callback s2 = callback s" "index s2 = index s"
    using query_keys_frame'[OF c] f1 by simp_all
  have g2: "l2 = lg @ sent_query (callback s) (frqCmd cls) (index s)
                   @ sent_query (callback s) (cfgCmd cls) (index s)"
    using query_keys_sent[OF c idx_INDEX_eq] f1 g1 by simp
  {
    assume h: "frqCmd cls = Some c"
      "lacks_field E (callback s) lg c (index s) DDC_FREQUENCY_OFFSET"
    have "configuration s1 DDC_FREQUENCY_OFFSET = Some VNone"
      using query_frq_absent[where E = E and cls = cls and c = c and idx = idx_INDEX
          and s = s0 and lg = l0 and k = DDC_FREQUENCY_OFFSET] h b f0 by (simp add: idx_INDEX_eq)
    then show "configuration s' DDC_FREQUENCY_OFFSET = Some VNone"
      using query_keys_other'[OF c, of DDC_FREQUENCY_OFFSET]
        query_keys_other'[OF d, of DDC_FREQUENCY_OFFSET] by simp
  }
  {
    assume h: "cfgCmd cls = Some c" "k \<in> set ddc_cfg_keys"
      "lacks_field E (callback s)
         (lg @ sent_query (callback s) (frqCmd cls) (index s)) c (index s) k"
    have "configuration s2 k = Some VNone"
      using ddc_cfg_absent[where E = E and cls = cls and c = c and k = k and s = s1 and lg = l1]
        h c f1 g1 by simp
    moreover have "k \<noteq> DDC_DATA_PORT" using h(2) by (auto simp: ddc_cfg_keys_def)
    ultimately show "configuration s' k = Some VNone"
      using query_keys_other'[OF d, of k] by simp
  }
  {
    assume h: "dportCmd cls = Some c"
      "lacks_field E (callback s)
         (lg @ sent_query (callback s) (frqCmd cls) (index s)
             @ sent_query (callback s) (cfgCmd cls) (index s)) c (index s) DDC_DATA_PORT"
    show "configuration s' DDC_DATA_PORT = Some VNone"
      using query_keys_absent[where E = E and cc = "dportCmd cls" and c = c and idx = idx_INDEX
          and s = s2 and lg = l2 and src = DDC_DATA_PORT and k = DDC_DATA_PORT and dflt = VNone
          and pre = "[]" and post = "[]" and flds = "[(DDC_DATA_PORT, DDC_DATA_PORT, VNone)]"]
        h d f2 g2 by (simp add: idx_INDEX_eq)
  }
qed

lemma lacks_field_mock: "lacks_field (mock_env failing (Some Map.empty)) cb h c i k"
  by (simp add: lacks_field_def query_inv_def)

lemma not_isl_pair: "\<not> isl x \<Longrightarrow> \<exists>a b. x = Inr (a, b)"
  by (cases x) auto

text \<open>
  Claim C3, as stated: a field absent from a parsable query response leaves the mirrored
  entry unchanged. The tuner mirrors frequency 100 MHz; the frequency query is answered
  with an empty response; afterwards the entry is \<^verbatim>\<open>None\<close>.
\<close>

theorem query_absent_field_counterexample:
  "lacks_field (mock_env [] (Some Map.empty)) (callback demo_tuner_state)
     ([] @ sent_query (callback demo_tuner_state) (tpwrCmd tuner_class) (index demo_tuner_state))
     ''frq'' (index demo_tuner_state) TUNER_FREQUENCY
   \<and> frqCmd tuner_class = Some ''frq''
   \<and> configuration demo_tuner_state TUNER_FREQUENCY = Some (VFloat 100000000)
   \<and> \<not> isl (tuner_queryConfiguration (mock_env [] (Some Map.empty)) tuner_class
              (demo_tuner_state, []))
   \<and> configuration (fst (projr (tuner_queryConfiguration (mock_env [] (Some Map.empty))
        tuner_class (demo_tuner_state, [])))) TUNER_FREQUENCY = Some VNone"
proof -
  have l: "lacks_field (mock_env [] (Some Map.empty)) (callback demo_tuner_state)
     ([] @ sent_query (callback demo_tuner_state) (tpwrCmd tuner_class) (index demo_tuner_state))
     ''frq'' (index demo_tuner_state) TUNER_FREQUENCY" by (rule lacks_field_mock)
  have c: "frqCmd tuner_class = Some ''frq''" by simp
  obtain s' lg' where r: "tuner_queryConfiguration (mock_env [] (Some Map.empty)) tuner_class
              (demo_tuner_state, []) = Inr (s', lg')"
    using tuner_query_returns[OF c l] by blast
  have "configuration s' TUNER_FREQUENCY = Some VNone"
    using tuner_query_entries(2)[OF r c l] .
  then show ?thesis using l r by (simp add: demo_tuner_state_def)
qed

text \<open>
  Claim C3, amended: when a query command gets a parsable response without the field of
  a key, \<^verbatim>\<open>_queryConfiguration\<close>, where it returns, has overwritten the mirrored entry of
  that key with the default of the \<^verbatim>\<open>rspInfo.get\<close> that reads it, whatever the entry was
  before: \<^verbatim>\<open>None\<close> for the tuner's frequency and both attenuation keys and for every key
  of the DDC (frequency offset, the five configuration keys, data port), and 0 for the
  tuner's ENABLE. Each query is taken at the history of sends at which the call issues
  it. With the frequency field absent the call does return.
\<close>

theorem query_absent_field_overwrites:
  assumes "R = tuner_queryConfiguration E cls (s, lg)"
    and "D = ddc_queryConfiguration E dcls (ds, dlg)"
    and "ha = lg @ sent_query (callback s) (tpwrCmd cls) (index s)"
    and "hb = ha @ sent_query (callback s) (frqCmd cls) (index s)"
    and "da = dlg @ sent_query (callback ds) (frqCmd dcls) (index ds)"
    and "db = da @ sent_query (callback ds) (cfgCmd dcls) (index ds)"
  shows
    "(tpwrCmd cls = Some pc \<and> lacks_field E (callback s) lg pc (index s) ENABLE \<and> \<not> isl R
        \<longrightarrow> configuration (fst (projr R)) ENABLE = Some (VInt 0))
     \<and> (frqCmd cls = Some fc \<and> lacks_field E (callback s) ha fc (index s) TUNER_FREQUENCY
        \<longrightarrow> \<not> isl R \<and> configuration (fst (projr R)) TUNER_FREQUENCY = Some VNone)
     \<and> (attCmd cls = Some ac \<and> lacks_field E (callback s) hb ac (index s) TUNER_ATTENUATION
          \<and> \<not> isl R
        \<longrightarrow> configuration (fst (projr R)) TUNER_ATTENUATION = Some VNone
            \<and> configuration (fst (projr R)) TUNER_RF_ATTENUATION = Some VNone)
     \<and> (frqCmd dcls = Some dfc
          \<and> lacks_field E (callback ds) dlg dfc (index ds) DDC_FREQUENCY_OFFSET
        \<longrightarrow> \<not> isl D \<and> configuration (fst (projr D)) DDC_FREQUENCY_OFFSET = Some VNone)
     \<and> (cfgCmd dcls = Some dcc \<and> k \<in> set ddc_cfg_keys
          \<and> lacks_field E (callback ds) da dcc (index ds) k \<and> \<not> isl D
        \<longrightarrow> configuration (fst (projr D)) k = Some VNone)
     \<and> (dportCmd dcls = Some dpc \<and> lacks_field E (callback ds) db dpc (index ds) DDC_DATA_PORT
          \<and> \<not> isl D
        \<longrightarrow> configuration (fst (projr D)) DDC_DATA_PORT = Some VNone)"
proof (intro conjI impI)
  assume h: "tpwrCmd cls = Some pc \<and> lacks_field E (callback s) lg pc (index s) ENABLE
      \<and> \<not> isl R"
  then obtain s' lg' where r: "tuner_queryConfiguration E cls (s, lg) = Inr (s', lg')"
    using not_isl_pair[of "tuner_queryConfiguration E cls (s, lg)"] assms(1) by auto
  show "configuration (fst (projr R)) ENABLE = Some (VInt 0)"
    using tuner_query_entries(1)[OF r] h by (simp add: assms(1) r)
next
  assume h: "frqCmd cls = Some fc \<and> lacks_field E (callback s) ha fc (index s) TUNER_FREQUENCY"
  then obtain s' lg' where r: "tuner_queryConfiguration E cls (s, lg) = Inr (s', lg')"
    using tuner_query_returns assms(3) by blast
  then show "\<not> isl R" by (simp add: assms(1))
  show "configuration (fst (projr R)) TUNER_FREQUENCY = Some VNone"
    using tuner_query_entries(2)[OF r] h by (simp add: assms(1,3) r)
next
  assume h: "attCmd cls = Some ac \<and> lacks_field E (callback s) hb ac (index s) TUNER_ATTENUATION
          \<and> \<not> isl R"
  then obtain s' lg' where r: "tuner_queryConfiguration E cls (s, lg) = Inr (s', lg')"
    using not_isl_pair[of "tuner_queryConfiguration E cls (s, lg)"] assms(1) by auto
  show "configuration (fst (projr R)) TUNER_ATTENUATION = Some VNone"
    using tuner_query_entries(3)[OF r] h by (simp add: assms(1,3,4) r)
  show "configuration (fst (projr R)) TUNER_RF_ATTENUATION = Some VNone"
    using tuner_query_entries(3)[OF r] h by (simp add: assms(1,3,4) r)
next
  assume h: "frqCmd dcls = Some dfc
      \<and> lacks_field E (callback ds) dlg dfc (index ds) DDC_FREQUENCY_OFFSET"
  then obtain s' lg' where r: "ddc_queryConfiguration E dcls (ds, dlg) = Inr (s', lg')"
    using ddc_query_returns by blast
  then show "\<not> isl D" by (simp add: assms(2))
  show "configuration (fst (projr D)) DDC_FREQUENCY_OFFSET = Some VNone"
    using ddc_query_entries(1)[OF r] h by (simp add: assms(2) r)
next
  assume h: "cfgCmd dcls = Some dcc \<and> k \<in> set ddc_cfg_keys
          \<and> lacks_field E (callback ds) da dcc (index ds) k \<and> \<not> isl D"
  then obtain s' lg' where r: "ddc_queryConfiguration E dcls (ds, dlg) = Inr (s', lg')"
    using not_isl_pair[of "ddc_queryConfiguration E dcls (ds, dlg)"] assms(2) by auto
  show "configuration (fst (projr D)) k = Some VNone"
    using ddc_query_entries(2)[OF r] h by (simp add: assms(2,5) r)
next
  assume h: "dportCmd dcls = Some dpc \<and> lacks_field E (callback ds) db dpc (index ds) DDC_DATA_PORT
          \<and> \<not> isl D"
  then obtain s' lg' where r: "ddc_queryConfiguration E dcls (ds, dlg) = Inr (s', lg')"
    using not_isl_pair[of "ddc_queryConfiguration E dcls (ds, dlg)"] assms(2) by auto
  show "configuration (fst (projr D)) DDC_DATA_PORT = Some VNone"
    using ddc_query_entries(3)[OF r] h by (simp add: assms(2,5,6) r)
qed

theorem query_absent_field_overwrites_witness:
  "configuration demo_tuner_state ENABLE = Some (VInt 1)
   \<and> configuration demo_tuner_state TUNER_FREQUENCY = Some (VFloat 100000000)
   \<and> configuration demo_tuner_state TUNER_ATTENUATION = Some (VFloat 10)
   \<and> configuration demo_ddc_state DDC_RATE_INDEX = Some (VInt 3)
   \<and> \<not> isl (tuner_queryConfiguration (mock_env [] (Some Map.empty)) tuner_class
              (demo_tuner_state, []))
   \<and> configuration (fst (projr (tuner_queryConfiguration (mock_env [] (Some Map.empty))
        tuner_class (demo_tuner_state, [])))) ENABLE = Some (VInt 0)
   \<and> configuration (fst (projr (tuner_queryConfiguration (mock_env [] (Some Map.empty))
        tuner_class (demo_tuner_state, [])))) TUNER_FREQUENCY = Some VNone
   \<and> configuration (fst (projr (tuner_queryConfiguration (mock_env [] (Some Map.empty))
        tuner_class (demo_tuner_state, [])))) TUNER_ATTENUATION = Some VNone
   \<and> configuration (fst (projr (tuner_queryConfiguration (mock_env [] (Some Map.empty))
        tuner_class (demo_tuner_state, [])))) TUNER_RF_ATTENUATION = Some VNone
   \<and> \<not> isl (ddc_queryConfiguration (mock_env [] (Some Map.empty)) demo_ddc_class
              (demo_ddc_state, []))
   \<and> configuration (fst (projr (ddc_queryConfiguration (mock_env [] (Some Map.empty))
        demo_ddc_class (demo_ddc_state, [])))) DDC_FREQUENCY_OFFSET = Some VNone
   \<and> configuration (fst (projr (ddc_queryConfiguration (mock_env [] (Some Map.empty))
        demo_ddc_class (demo_ddc_state, [])))) DDC_RATE_INDEX = Some VNone
   \<and> configuration (fst (projr (ddc_queryConfiguration (mock_env [] (Some Map.empty))
        demo_ddc_class (demo_ddc_state, [])))) DDC_DATA_PORT = Some VNone"
  using query_absent_field_overwrites[where E = "mock_env [] (Some Map.empty)"
      and cls = tuner_class and s = demo_tuner_state and lg = "[]"
      and dcls = demo_ddc_class and ds = demo_ddc_state and dlg = "[]"
      and R = "tuner_queryConfiguration (mock_env [] (Some Map.empty)) tuner_class
              (demo_tuner_state, [])"
      and D = "ddc_queryConfiguration (mock_env [] (Some Map.empty)) demo_ddc_class
              (demo_ddc_state, [])"
      and ha = "[] @ sent_query (callback demo_tuner_state) (tpwrCmd tuner_class)
                       (index demo_tuner_state)"
      and hb = "([] @ sent_query (callback demo_tuner_state) (tpwrCmd tuner_class)
                       (index demo_tuner_state))
                @ sent_query (callback demo_tuner_state) (frqCmd tuner_class)
                       (index demo_tuner_state)"
      and da = "[] @ sent_query (callback demo_ddc_state) (frqCmd demo_ddc_class)
                       (index demo_ddc_state)"
      and db = "([] @ sent_query (callback demo_ddc_state) (frqCmd demo_ddc_class)
                       (index demo_ddc_state))
                @ sent_query (callback demo_ddc_state) (cfgCmd demo_ddc_class)
                       (index demo_ddc_state)"
      and pc = "''tpwr''" and fc = "''frq''" and ac = "''att''"
      and dfc = "''wbfrq''" and dcc = "''wbddc''" and dpc = "''wbdp''" and k = DDC_RATE_INDEX]
  by (simp add: lacks_field_mock ddc_cfg_keys_def)
     (simp add: demo_tuner_state_def demo_ddc_state_def)

section \<open>The transmitter and its tone generators\<close>

lemma tx_init_demo: "tx_init demo_tx_class (Some 0) 1 = Inr demo_tx"
  by (simp add: tx_init_def demo_tx_class_def tx_class_def demo_tx_def)

lemma demo_tx_class_sel [simp]:
  "tpwrCmd demo_tx_class = Some ''txp''" "frqCmd demo_tx_class = Some ''txf''"
  "attCmd demo_tx_class = Some ''txa''" "numToneGen demo_tx_class = 1"
  "toneGenIndexBase demo_tx_class = 1" "toneGenType demo_tx_class = Some cwToneGen_class"
  "frqUnits demo_tx_class = 1000000"
  by (simp_all add: demo_tx_class_def tx_class_def)

lemma cwToneGen_class_sel [simp]:
  "toneCmd cwToneGen_class = Some ''cwt''" "sweepCmd cwToneGen_class = Some ''cws''"
  "validConfigurationKeywords cwToneGen_class =
     [CW_FREQUENCY, CW_AMPLITUDE, CW_PHASE,
      CW_SWEEP_START, CW_SWEEP_STOP, CW_SWEEP_STEP, CW_SWEEP_DWELL]"
  by (simp_all add: cwToneGen_class_def)

lemma tx_set_att_skip:
  "confDict TX_ATTENUATION = None \<or> attCmd cls = None \<Longrightarrow> tx_set_att E cls confDict st = Inr st"
  by (cases st) (auto simp: tx_set_att_def split: option.splits)

lemma demo_tx_run_eval:
  "\<exists>s'. demo_tx_run = Inr (s', [(Some 0, set_inv ''cwt''
            (dictUpdate Map.empty [CW_FREQUENCY \<mapsto> VInt 1000] Map.empty
               [CW_FREQUENCY, CW_AMPLITUDE, CW_PHASE]
             ++ [CW_INDEX \<mapsto> VInt 1, TX_INDEX \<mapsto> VInt 1]))], True)
     \<and> map diag_failed (cmdErrorInfo s') = [True]"
  unfolding demo_tx_run_def
  apply (simp add: tx_setConfiguration_def set_plain_skip set_frq_skip tx_set_att_skip
      demo_cw_conf_def dict_item_def)
  apply (simp add: py_contains_idx_def toneGen_item_def demo_tx_def component.defs
      py_item_idx_def py_kwargs_def setConfiguration_def cwToneGen_setConfiguration_def)
  apply (subst set_group_run[where c = "''cwt''", OF _ _ refl refl])
    apply simp
   apply simp
  apply (simp add: set_group_skip toneGen_store_def getLastCommandErrorInfo_def
      component_init_def idx_CW_def diag_failed_def ok_def set_inv_def)
  apply (rule ext)
  apply (simp add: dictUpdate_def)
  done

lemma query_keys_pair:
  "query_keys E cc idx flds st =
     (fst (query_keys E cc idx flds (fst st, snd st)), snd (query_keys E cc idx flds (fst st, snd st)))"
  by simp

lemma cw_query_eval:
  "\<exists>child'. cwToneGen_queryConfiguration E c pidx (child, lg)
       = Inr (child', lg @ map (Pair (callback child)) (cw_query_cmds c pidx (index child)))
     \<and> callback child' = callback child \<and> transport child' = transport child
     \<and> index child' = index child"
proof -
  obtain s0 l0 where a: "Configurable_queryConfiguration E (child, lg) = (s0, l0)" by force
  have f0: "callback s0 = callback child" "index s0 = index child"
    "transport s0 = transport child" "l0 = lg"
    using hook_sel[of E child lg] a by simp_all
  obtain s1 l1 where b: "query_keys E (toneCmd c) (idx_CW pidx)
                 [(CW_FREQUENCY, CW_FREQUENCY, VNone),
                  (CW_AMPLITUDE, CW_AMPLITUDE, VNone),
                  (CW_PHASE, CW_PHASE, VNone)] (s0, l0) = (s1, l1)" by force
  have f1: "callback s1 = callback child" "index s1 = index child" "transport s1 = transport child"
    using query_keys_frame'[OF b] f0 by simp_all
  have g1: "l1 = lg @ (case toneCmd c of None \<Rightarrow> []
              | Some cc \<Rightarrow> [(callback s0, query_inv cc (idx_CW pidx s0))])"
    using query_keys_log'[OF b] f0 by simp
  obtain s2 l2 where d: "query_keys E (sweepCmd c) (idx_CW pidx)
                 [(CW_SWEEP_START, CW_SWEEP_START, VNone),
                  (CW_SWEEP_STOP, CW_SWEEP_STOP, VNone),
                  (CW_SWEEP_STEP, CW_SWEEP_STEP, VNone),
                  (CW_SWEEP_DWELL, CW_SWEEP_DWELL, VNone)] (s1, l1) = (s2, l2)" by force
  have f2: "callback s2 = callback child" "index s2 = index child" "transport s2 = transport child"
    using query_keys_frame'[OF d] f1 by simp_all
  have g2: "l2 = l1 @ (case sweepCmd c of None \<Rightarrow> []
              | Some cc \<Rightarrow> [(callback s1, query_inv cc (idx_CW pidx s1))])"
    using query_keys_log'[OF d] f1 by simp
  have r: "cwToneGen_queryConfiguration E c pidx (child, lg) = Inr (s2, l2)"
    by (simp add: cwToneGen_queryConfiguration_def Let_def a b d)
  have l: "l2 = lg @ map (Pair (callback child)) (cw_query_cmds c pidx (index child))"
    by (simp add: g1 g2 cw_query_cmds_def idx_CW_def f0 f1 split: option.splits)
  show ?thesis using r l f2 by simp
qed

lemma child_addTransport_eval:
  "\<exists>child'. addTransport (cwToneGen_queryConfiguration E c pidx) t cb True (child, lg)
       = Inr (child', lg @ map (Pair cb) (cw_query_cmds c pidx (index child)))
     \<and> callback child' = cb \<and> transport child' = t \<and> index child' = index child"
proof -
  obtain child' where
    "cwToneGen_queryConfiguration E c pidx (child\<lparr>transport := t, callback := cb\<rparr>, lg)
       = Inr (child', lg @ map (Pair cb) (cw_query_cmds c pidx (index child)))"
    "callback child' = cb" "transport child' = t" "index child' = index child"
    using cw_query_eval[of E c pidx "child\<lparr>transport := t, callback := cb\<rparr>" lg] by auto
  then show ?thesis
    by (simp add: addTransport_def queryConfiguration_def)
qed

lemma children_addTransport_eval:
  "\<exists>kids'. tx_addTransport_children E pidx t cb True kids lg
       = Inr (kids', lg @ children_attach_log pidx cb kids)
     \<and> map fst kids' = map fst kids
     \<and> list_all (\<lambda>(i, c, k). transport k = t \<and> callback k = cb) kids'"
proof (induction kids arbitrary: lg)
  case Nil
  then show ?case by (simp add: children_attach_log_def)
next
  case (Cons a kids)
  obtain i c child where a: "a = (i, c, child)" by (cases a) auto
  obtain child' where
    1: "addTransport (cwToneGen_queryConfiguration E c pidx) t cb True (child, lg)
       = Inr (child', lg @ map (Pair cb) (cw_query_cmds c pidx (index child)))"
    and 2: "callback child' = cb" "transport child' = t"
    using child_addTransport_eval[of E c pidx t cb child lg] by blast
  obtain kids' where
    3: "tx_addTransport_children E pidx t cb True kids
          (lg @ map (Pair cb) (cw_query_cmds c pidx (index child)))
       = Inr (kids', (lg @ map (Pair cb) (cw_query_cmds c pidx (index child)))
                     @ children_attach_log pidx cb kids)"
    and 4: "map fst kids' = map fst kids"
      "list_all (\<lambda>(i, c, k). transport k = t \<and> callback k = cb) kids'"
    using Cons.IH[of "lg @ map (Pair cb) (cw_query_cmds c pidx (index child))"] by blast
  show ?case
    using 2 4 by (simp add: a 1 3 children_attach_log_def)
qed

lemma query_frq_log:
  assumes "query_frq E cls idx k (s, lg) = Inr (s', lg')"
  shows "\<exists>rest. lg' = lg @ rest"
  using assms
  by (auto simp: query_frq_def ask_def send_def thenE_def
      split: option.splits prod.splits pyval.splits sum.splits)

lemma tx_query_att_frame:
  assumes "tx_query_att E cls (s, lg) = (s', lg')"
  shows "callback s' = callback s \<and> transport s' = transport s \<and> index s' = index s
         \<and> toneGenDict s' = toneGenDict s \<and> (\<exists>rest. lg' = lg @ rest)"
  using assms
  by (auto simp: tx_query_att_def send_def Let_def addLastCommandErrorInfo_def conf_set_def
      split: option.splits prod.splits)

lemma child_query_total:
  "\<exists>conf child' rest. queryConfiguration (cwToneGen_queryConfiguration E c pidx) (child, lg)
       = Inr (conf, child', lg @ rest)"
  using cw_query_eval[of E c pidx child lg]
  by (auto simp: queryConfiguration_def)

lemma tx_query_children_total:
  "\<exists>kids' cw' errs' rest. tx_query_children E pidx kids (cw, errs, lg)
       = Inr (kids', cw', errs', lg @ rest)"
proof (induction kids arbitrary: cw errs lg)
  case Nil
  then show ?case by simp
next
  case (Cons a kids)
  obtain i c child where a: "a = (i, c, child)" by (cases a) auto
  obtain conf child' rest where
    1: "queryConfiguration (cwToneGen_queryConfiguration E c pidx) (child, lg)
       = Inr (conf, child', lg @ rest)"
    using child_query_total by blast
  obtain kids' cw' errs' rest' where
    2: "tx_query_children E pidx kids
          (idx_store cw i (VDict conf), errs @ getLastCommandErrorInfo child', lg @ rest)
        = Inr (kids', cw', errs', (lg @ rest) @ rest')"
    using Cons.IH by blast
  show ?case
    by (simp add: a 1 2) 
qed

lemma tx_query_frame:
  assumes "tx_queryConfiguration E cls (s, lg) = Inr (s', lg')"
  shows "transport s' = transport s \<and> callback s' = callback s \<and> (\<exists>rest. lg' = lg @ rest)"
proof -
  obtain s0 l0 where a: "Configurable_queryConfiguration E (s, lg) = (s0, l0)" by force
  have f0: "callback s0 = callback s" "transport s0 = transport s" "l0 = lg"
    using hook_sel[of E s lg] a by simp_all
  obtain s1 l1 where b:
    "query_keys E (tpwrCmd cls) idx_TX [(ENABLE, ENABLE, VInt 0)] (s0, l0) = (s1, l1)" by force
  have f1: "callback s1 = callback s" "transport s1 = transport s"
    using query_keys_frame'[OF b] f0 by simp_all
  obtain r1 where g1: "l1 = lg @ r1" using query_keys_log'[OF b] f0 by simp
  obtain s2 l2 where c: "query_frq E cls idx_TX TX_FREQUENCY (s1, l1) = Inr (s2, l2)"
    using assms by (cases "query_frq E cls idx_TX TX_FREQUENCY (s1, l1)")
      (auto simp: tx_queryConfiguration_def Let_def a b)
  have f2: "callback s2 = callback s" "transport s2 = transport s"
    using query_frq_frame[OF c] f1 by simp_all
  obtain r2 where g2: "l2 = l1 @ r2" using query_frq_log[OF c] by blast
  obtain s3 l3 where d: "tx_query_att E cls (s2, l2) = (s3, l3)" by force
  have f3: "callback s3 = callback s" "transport s3 = transport s"
    using tx_query_att_frame[OF d] f2 by simp_all
  obtain r3 where g3: "l3 = l2 @ r3" using tx_query_att_frame[OF d] by blast
  show ?thesis
  proof (cases "toneGenType cls")
    case None
    then have "s' = s3 \<and> lg' = l3"
      using assms by (simp add: tx_queryConfiguration_def Let_def a b c d)
    then show ?thesis using f3 g1 g2 g3 by simp
  next
    case (Some tg)
    obtain kids' cw' errs' rest where e:
      "tx_query_children E (index s3)
          (toneGenDict (conf_set CONFIG_CW (VIdxDict []) s3))
          ([], cmdErrorInfo s3, l3)
        = Inr (kids', cw', errs', l3 @ rest)"
      using tx_query_children_total by blast
    have "s' = (conf_set CONFIG_CW (VIdxDict []) s3)
                 \<lparr>configuration := (configuration s3)(CONFIG_CW \<mapsto> VIdxDict cw'),
                   cmdErrorInfo := errs', toneGenDict := kids'\<rparr> \<and> lg' = l3 @ rest"
      using assms by (simp add: tx_queryConfiguration_def Let_def a b c d Some e)
    then show ?thesis using f3 g1 g2 g3 by simp
  qed
qed

lemma tx_query_returns_mock:
  "\<exists>s' lg'. tx_queryConfiguration (mock_env [] (Some Map.empty)) cls (s, lg) = Inr (s', lg')"
proof -
  let ?E = "mock_env [] (Some Map.empty)"
  obtain s0 l0 where a: "Configurable_queryConfiguration ?E (s, lg) = (s0, l0)" by force
  obtain s1 l1 where b:
    "query_keys ?E (tpwrCmd cls) idx_TX [(ENABLE, ENABLE, VInt 0)] (s0, l0) = (s1, l1)" by force
  obtain s2 l2 where c: "query_frq ?E cls idx_TX TX_FREQUENCY (s1, l1) = Inr (s2, l2)"
    by (cases "frqCmd cls")
       (auto simp: query_frq_def ask_def send_def query_inv_def dict_get_def)
  obtain s3 l3 where d: "tx_query_att ?E cls (s2, l2) = (s3, l3)" by force
  show ?thesis
  proof (cases "toneGenType cls")
    case None
    then show ?thesis by (simp add: tx_queryConfiguration_def Let_def a b c d)
  next
    case (Some tg)
    obtain kids' cw' errs' rest where e:
      "tx_query_children ?E (index s3)
          (toneGenDict (conf_set CONFIG_CW (VIdxDict []) s3))
          ([], cmdErrorInfo s3, l3)
        = Inr (kids', cw', errs', l3 @ rest)"
      using tx_query_children_total by blast
    show ?thesis by (simp add: tx_queryConfiguration_def Let_def a b c d Some e)
  qed
qed

lemma demo_tx_attach_returns: "\<not> isl demo_tx_attach"
proof -
  let ?E = "mock_env [] (Some Map.empty)"
  obtain kids where
    1: "tx_addTransport_children ?E (index demo_tx) (Some 7) (Some 9) True (toneGenDict demo_tx) []
        = Inr (kids, [] @ children_attach_log (index demo_tx) (Some 9) (toneGenDict demo_tx))"
    using children_addTransport_eval by blast
  obtain s' lg' where
    2: "tx_queryConfiguration ?E demo_tx_class
          (demo_tx\<lparr>toneGenDict := kids, transport := Some 7, callback := Some 9\<rparr>,
           children_attach_log (index demo_tx) (Some 9) (toneGenDict demo_tx)) = Inr (s', lg')"
    using tx_query_returns_mock by blast
  show ?thesis
    using 1 by (simp add: demo_tx_attach_def tx_addTransport_def addTransport_def
        queryConfiguration_def 2)
qed

text \<open>
  Claim C4: the result of a composite component's \<^verbatim>\<open>setConfiguration\<close> is the
  conjunction over every invocation of the call, those of the children included. The
  transmitter with one tone generator is asked to configure the generator only; the
  generator's tone command, the one command of the call, fails and is recorded as a
  failure in the transmitter's diagnostic list, and the call returns \<^verbatim>\<open>True\<close>:
  \<^verbatim>\<open>_tx._setConfiguration\<close> drops the value of the generator's \<^verbatim>\<open>setConfiguration\<close>.
\<close>

theorem tx_child_failure_returns_true:
  "\<not> isl demo_tx_run
   \<and> map (cmd_class \<circ> snd) (fst (snd (projr demo_tx_run))) = [''cwt'']
   \<and> map diag_failed (cmdErrorInfo (fst (projr demo_tx_run))) = [True]
   \<and> snd (snd (projr demo_tx_run)) = True"
proof -
  obtain s' where r: "demo_tx_run = Inr (s', [(Some 0, set_inv ''cwt''
            (dictUpdate Map.empty [CW_FREQUENCY \<mapsto> VInt 1000] Map.empty
               [CW_FREQUENCY, CW_AMPLITUDE, CW_PHASE]
             ++ [CW_INDEX \<mapsto> VInt 1, TX_INDEX \<mapsto> VInt 1]))], True)"
    and d: "map diag_failed (cmdErrorInfo s') = [True]"
    using demo_tx_run_eval by (elim exE conjE)
  show ?thesis by (simp add: r d set_inv_def)
qed

text \<open>
  Claim C8: \<^verbatim>\<open>_tx.addTransport\<close> with \<^verbatim>\<open>queryConfig=True\<close> first runs over the tone
  generators, which never fails: afterwards every generator holds the transport and the
  callback, and the call log has grown by exactly the generators' own queries, each sent
  with the new callback, generator by generator. Only then \<^verbatim>\<open>_base.addTransport\<close> runs
  on the transmitter, whose transport and callback are still the old ones at that
  point; where it returns, the transmitter holds the new transport and callback and
  its own queries follow the generators' in the call log.
\<close>

theorem tx_addTransport_children_first:
  assumes "R = tx_addTransport E cls t cb True (s, lg)"
  shows "\<exists>kids.
      tx_addTransport_children E (index s) t cb True (toneGenDict s) lg
        = Inr (kids, lg @ children_attach_log (index s) cb (toneGenDict s))
      \<and> map fst kids = map fst (toneGenDict s)
      \<and> list_all (\<lambda>(i, c, k). transport k = t \<and> callback k = cb) kids
      \<and> R = addTransport (tx_queryConfiguration E cls) t cb True
              (s\<lparr>toneGenDict := kids\<rparr>, lg @ children_attach_log (index s) cb (toneGenDict s))
      \<and> (\<not> isl R \<longrightarrow>
            transport (fst (projr R)) = t \<and> callback (fst (projr R)) = cb
            \<and> (\<exists>rest. snd (projr R)
                        = lg @ children_attach_log (index s) cb (toneGenDict s) @ rest))"
proof -
  obtain kids where
    1: "tx_addTransport_children E (index s) t cb True (toneGenDict s) lg
        = Inr (kids, lg @ children_attach_log (index s) cb (toneGenDict s))"
    and 2: "map fst kids = map fst (toneGenDict s)"
      "list_all (\<lambda>(i, c, k). transport k = t \<and> callback k = cb) kids"
    using children_addTransport_eval by blast
  have 3: "R = addTransport (tx_queryConfiguration E cls) t cb True
              (s\<lparr>toneGenDict := kids\<rparr>, lg @ children_attach_log (index s) cb (toneGenDict s))"
    by (simp add: assms tx_addTransport_def 1)
  have 4: "transport (fst (projr R)) = t \<and> callback (fst (projr R)) = cb
            \<and> (\<exists>rest. snd (projr R)
                        = lg @ children_attach_log (index s) cb (toneGenDict s) @ rest)"
    if h: "\<not> isl R"
  proof -
    obtain s' lg' where r: "R = Inr (s', lg')"
      using h not_isl_pair by blast
    then have "tx_queryConfiguration E cls
                 (s\<lparr>toneGenDict := kids, transport := t, callback := cb\<rparr>,
                  lg @ children_attach_log (index s) cb (toneGenDict s)) = Inr (s', lg')"
      using 3
      by (auto simp: addTransport_def queryConfiguration_def thenE_def split: sum.splits)
    from tx_query_frame[OF this] show ?thesis by (auto simp: r)
  qed
  show ?thesis using 1 2 3 4 by blast
qed

theorem tx_addTransport_children_first_witness:
  "\<not> isl demo_tx_attach
   \<and> transport (fst (projr demo_tx_attach)) = Some 7
   \<and> callback (fst (projr demo_tx_attach)) = Some 9
   \<and> (\<exists>rest. snd (projr demo_tx_attach)
        = [(Some 9, query_inv ''cwt'' [CW_INDEX \<mapsto> VInt 1, TX_INDEX \<mapsto> VInt 1]),
           (Some 9, query_inv ''cws'' [CW_INDEX \<mapsto> VInt 1, TX_INDEX \<mapsto> VInt 1])] @ rest)"
  using tx_addTransport_children_first[where R = demo_tx_attach
      and E = "mock_env [] (Some Map.empty)" and cls = demo_tx_class and t = "Some 7"
      and cb = "Some 9" and s = demo_tx and lg = "[]"] demo_tx_attach_returns
  by (auto simp: demo_tx_attach_def children_attach_log_def cw_query_cmds_def demo_tx_def
      component.defs component_init_def)


end
